theory Spec2Isabelle
  imports Main "HOL-Library.Word" "HOL-Library.Monad_Syntax"
begin

unbundle bit_operations_syntax

section \<open>Python values\<close>

text \<open>
  The models of \<^verbatim>\<open>data_models/models.py\<close> serialise dataclasses into
  \<^verbatim>\<open>Dict[str, Any]\<close>. The values that can occur in such a dictionary are
  collected in one datatype. A Python \<^verbatim>\<open>float\<close> is an IEEE-754 binary64; it is kept
  as its 64-bit pattern, since the code only stores floats and passes them on.
\<close>

type_synonym pyfloat = "64 word"

datatype tzinfo = Utc | FixedOffset int

text \<open>
  A \<^verbatim>\<open>datetime\<close>: the instant in microseconds since the epoch, and the attached
  time zone (\<open>None\<close> for a naive value).
\<close>

record datetime =
  dt_instant :: int
  dt_tzinfo :: "tzinfo option"

datatype pyval =
    PNone
  | PStr string
  | PInt int
  | PFloat pyfloat
  | PDatetime datetime
  | PList "pyval list"
  | PDict "(string \<times> pyval) list"

text \<open>
  A \<^verbatim>\<open>dict\<close> keeps its keys in insertion order, so it is an association list.
  \<^verbatim>\<open>d[k] = v\<close> overwrites the value of a key that is present, in place, and appends
  a new key at the end.
\<close>

type_synonym pydict = "(string \<times> pyval) list"

fun dict_setitem :: "pydict \<Rightarrow> string \<Rightarrow> pyval \<Rightarrow> pydict" where
  "dict_setitem [] k v = [(k, v)]"
| "dict_setitem ((k', v') # d) k v =
     (if k' = k then (k, v) # d else (k', v') # dict_setitem d k v)"

text \<open>A dictionary display \<^verbatim>\<open>{k1: v1, ..., kn: vn}\<close> inserts its items from left to right.\<close>

definition dict_display :: "(string \<times> pyval) list \<Rightarrow> pydict" where
  "dict_display kvs = foldl (\<lambda>d (k, v). dict_setitem d k v) [] kvs"

definition dict_keys :: "pydict \<Rightarrow> string list" where
  "dict_keys d = map fst d"

definition dict_get :: "pydict \<Rightarrow> string \<Rightarrow> pyval option" where
  "dict_get d k = map_of d k"

text \<open>
  Comparison of two dictionaries as \<^verbatim>\<open>dict.__eq__\<close> does it: the same number of items,
  and every item of the first is found in the second under the same key. The values under
  a key are compared by equality of the modelled values.
\<close>

definition dict_equal :: "pydict \<Rightarrow> pydict \<Rightarrow> bool" where
  "dict_equal a b =
     (length a = length b \<and> list_all (\<lambda>(k, v). dict_get b k = Some v) a)"

text \<open>Conversions of optional fields: Python's \<^verbatim>\<open>None\<close> is the value \<open>PNone\<close>.\<close>

definition opt_val :: "('a \<Rightarrow> pyval) \<Rightarrow> 'a option \<Rightarrow> pyval" where
  "opt_val f x = (case x of None \<Rightarrow> PNone | Some y \<Rightarrow> f y)"

definition str_list_val :: "string list \<Rightarrow> pyval" where
  "str_list_val xs = PList (map PStr xs)"

section \<open>Restaurant\<close>

text \<open>
  Modelled from the spec: \<^verbatim>\<open>GeoPoint\<close> is imported from
  \<^verbatim>\<open>google.cloud.firestore\<close> and is not part of the sources; the spec describes it as
  an external type holding a latitude/longitude pair of two numeric fields. It is a plain
  object without \<^verbatim>\<open>__bool__\<close> or \<^verbatim>\<open>__len__\<close>, so every instance is truthy.
\<close>

record GeoPoint =
  latitude :: pyfloat
  longitude :: pyfloat

record Restaurant =
  Restaurant_id :: string
  Restaurant_name :: string
  Restaurant_cuisine :: string
  Restaurant_address :: string
  Restaurant_rating :: pyfloat
  Restaurant_deliveryFee :: pyfloat
  Restaurant_estimatedDeliveryTime :: int
  Restaurant_subname :: "string option"
  Restaurant_coords :: "GeoPoint option"

text \<open>Truth value testing of an \<^verbatim>\<open>Optional[str]\<close> and of an \<^verbatim>\<open>Optional[GeoPoint]\<close>.\<close>

definition truthy_str :: "string option \<Rightarrow> bool" where
  "truthy_str s = (case s of None \<Rightarrow> False | Some t \<Rightarrow> t \<noteq> [])"

definition truthy_obj :: "'a option \<Rightarrow> bool" where
  "truthy_obj x = (case x of None \<Rightarrow> False | Some _ \<Rightarrow> True)"

definition GeoPoint_to_dict :: "GeoPoint \<Rightarrow> pyval" where
  "GeoPoint_to_dict g =
     PDict (dict_display
       [(''latitude'', PFloat (latitude g)),
        (''longitude'', PFloat (longitude g))])"

definition Restaurant_to_dict :: "Restaurant \<Rightarrow> pydict" where
  "Restaurant_to_dict self =
     (let data = dict_display
            [(''id'', PStr (Restaurant_id self)),
             (''name'', PStr (Restaurant_name self)),
             (''cuisine'', PStr (Restaurant_cuisine self)),
             (''address'', PStr (Restaurant_address self)),
             (''rating'', PFloat (Restaurant_rating self)),
             (''deliveryFee'', PFloat (Restaurant_deliveryFee self)),
             (''estimatedDeliveryTime'', PInt (Restaurant_estimatedDeliveryTime self))];
          data = (if truthy_str (Restaurant_subname self)
                  then dict_setitem data ''subname'' (opt_val PStr (Restaurant_subname self))
                  else data);
          data = (if truthy_obj (Restaurant_coords self)
                  then dict_setitem data ''coords''
                         (opt_val GeoPoint_to_dict (Restaurant_coords self))
                  else data)
      in data)"

section \<open>MenuItem\<close>

record MenuItem =
  MenuItem_id :: string
  MenuItem_name :: string
  MenuItem_description :: string
  MenuItem_price :: pyfloat

definition MenuItem_to_dict :: "MenuItem \<Rightarrow> pydict" where
  "MenuItem_to_dict self =
     dict_display
       [(''id'', PStr (MenuItem_id self)),
        (''name'', PStr (MenuItem_name self)),
        (''description'', PStr (MenuItem_description self)),
        (''price'', PFloat (MenuItem_price self))]"

section \<open>User\<close>

record User =
  User_id :: string
  User_email :: string
  User_name :: string
  User_order_history :: "string list option"

definition User_post_init :: "User \<Rightarrow> User" where
  "User_post_init self =
     (if User_order_history self = None
      then self\<lparr>User_order_history := Some []\<rparr>
      else self)"

text \<open>
  The constructor generated by \<^verbatim>\<open>@dataclass\<close>: it assigns the fields and then calls
  \<^verbatim>\<open>__post_init__\<close> once. An omitted \<^verbatim>\<open>order_history\<close> takes its default \<^verbatim>\<open>None\<close>.
\<close>

definition User_init :: "string \<Rightarrow> string \<Rightarrow> string \<Rightarrow> string list option \<Rightarrow> User" where
  "User_init i e n h =
     User_post_init
       \<lparr>User_id = i, User_email = e, User_name = n, User_order_history = h\<rparr>"

definition User_to_dict :: "User \<Rightarrow> pydict" where
  "User_to_dict self =
     dict_display
       [(''id'', PStr (User_id self)),
        (''email'', PStr (User_email self)),
        (''name'', PStr (User_name self)),
        (''orderHistory'', opt_val str_list_val (User_order_history self))]"

section \<open>OrderItem and OrderCreationData\<close>

record OrderItem =
  OrderItem_menu_item_id :: string

definition OrderItem_to_dict :: "OrderItem \<Rightarrow> pydict" where
  "OrderItem_to_dict self =
     dict_display [(''menuItemId'', PStr (OrderItem_menu_item_id self))]"

record OrderCreationData =
  OrderCreationData_restaurant_id :: string
  OrderCreationData_user_id :: string
  OrderCreationData_item_ids :: "string list"
  OrderCreationData_delivery_address :: string

definition OrderCreationData_to_dict :: "OrderCreationData \<Rightarrow> pydict" where
  "OrderCreationData_to_dict self =
     dict_display
       [(''restaurant'', PStr (OrderCreationData_restaurant_id self)),
        (''user'', PStr (OrderCreationData_user_id self)),
        (''items'', str_list_val (OrderCreationData_item_ids self)),
        (''deliveryAddress'', PStr (OrderCreationData_delivery_address self))]"

section \<open>The environment of Order construction\<close>

text \<open>
  \<^verbatim>\<open>Order.__post_init__\<close> calls \<^verbatim>\<open>uuid.uuid4()\<close> and
  \<^verbatim>\<open>datetime.now(timezone.utc)\<close>. Both read the outside world, which is passed
  explicitly: the successive 16-byte results of the operating system's random source, the
  successive readings of the system clock (microseconds since the epoch), and how many of
  each have been consumed.
\<close>

record world =
  urandom :: "nat \<Rightarrow> 128 word"
  urandom_reads :: nat
  clock :: "nat \<Rightarrow> int"
  clock_reads :: nat

text \<open>
  Modelled from the spec: \<^verbatim>\<open>uuid.uuid4()\<close> and \<^verbatim>\<open>str\<close> of a \<^verbatim>\<open>UUID\<close> belong
  to Python's standard library, not to the sources; the spec calls the result a 128-bit
  random identifier in canonical textual form. The definitions follow the library:
  sixteen random bytes read as a big-endian integer, with the variant bits set to \<open>10\<close>
  and the version nibble set to \<open>4\<close>.
\<close>

definition uuid_of_random :: "128 word \<Rightarrow> 128 word" where
  "uuid_of_random r =
     (((r AND NOT (push_bit 48 0xc000)) OR push_bit 48 0x8000)
        AND NOT (push_bit 64 0xf000)) OR push_bit 76 4"

definition uuid4 :: "world \<Rightarrow> 128 word \<times> world" where
  "uuid4 w =
     (uuid_of_random (urandom w (urandom_reads w)),
      w\<lparr>urandom_reads := Suc (urandom_reads w)\<rparr>)"

text \<open>
  \<^verbatim>\<open>str\<close> of a \<^verbatim>\<open>UUID\<close>: the integer as 32 lower-case hexadecimal digits, most
  significant first, in groups of 8, 4, 4, 4 and 12 digits joined by hyphens.
\<close>

definition hex_digit :: "nat \<Rightarrow> char" where
  "hex_digit n = ''0123456789abcdef'' ! (n mod 16)"

definition hex32 :: "128 word \<Rightarrow> string" where
  "hex32 x = map (\<lambda>i. hex_digit (unat (drop_bit (4 * (31 - i)) x AND 15))) [0..<32]"

definition uuid_str :: "128 word \<Rightarrow> string" where
  "uuid_str x =
     (let h = hex32 x in
      take 8 h @ ''-'' @ take 4 (drop 8 h) @ ''-'' @ take 4 (drop 12 h) @ ''-'' @
      take 4 (drop 16 h) @ ''-'' @ drop 20 h)"

text \<open>
  The canonical textual form of a UUID: 36 characters, hyphens at the positions 8, 13, 18
  and 23, and lower-case hexadecimal digits everywhere else.
\<close>

definition is_hex_char :: "char \<Rightarrow> bool" where
  "is_hex_char c = (c \<in> set ''0123456789abcdef'')"

definition canonical_uuid :: "string \<Rightarrow> bool" where
  "canonical_uuid s =
     (length s = 36 \<and>
      list_all is_hex_char (take 8 s) \<and> s ! 8 = CHR ''-'' \<and>
      list_all is_hex_char (take 4 (drop 9 s)) \<and> s ! 13 = CHR ''-'' \<and>
      list_all is_hex_char (take 4 (drop 14 s)) \<and> s ! 18 = CHR ''-'' \<and>
      list_all is_hex_char (take 4 (drop 19 s)) \<and> s ! 23 = CHR ''-'' \<and>
      list_all is_hex_char (drop 24 s))"

text \<open>
  Modelled from the spec: \<^verbatim>\<open>datetime.now(timezone.utc)\<close> of the standard library, "the
  current civil time in UTC, captured once": one reading of the clock, as an aware value
  in UTC.
\<close>

definition datetime_now_utc :: "world \<Rightarrow> datetime \<times> world" where
  "datetime_now_utc w =
     (\<lparr>dt_instant = clock w (clock_reads w), dt_tzinfo = Some Utc\<rparr>,
      w\<lparr>clock_reads := Suc (clock_reads w)\<rparr>)"

section \<open>Order\<close>

record Order =
  Order_restaurant :: string
  Order_user :: string
  Order_items :: "OrderItem list"
  Order_delivery_address :: string
  Order_status :: string
  Order_order_id :: "string option"
  Order_created_at :: "datetime option"
  Order_updated_at :: "datetime option"

definition Order_post_init :: "Order \<Rightarrow> world \<Rightarrow> Order \<times> world" where
  "Order_post_init self w =
     (let (self, w) =
            (if Order_order_id self = None
             then (let (u, w) = uuid4 w
                   in (self\<lparr>Order_order_id := Some (uuid_str u)\<rparr>, w))
             else (self, w));
          (self, w) =
            (if Order_created_at self = None
             then (let (t, w) = datetime_now_utc w
                   in (self\<lparr>Order_created_at := Some t\<rparr>, w))
             else (self, w));
          (self, w) =
            (if Order_updated_at self = None
             then (let (t, w) = datetime_now_utc w
                   in (self\<lparr>Order_updated_at := Some t\<rparr>, w))
             else (self, w))
      in (self, w))"

text \<open>
  The generated constructor. \<open>status\<close> is \<open>None\<close> when the keyword is omitted, and the
  field then takes its declared default \<^verbatim>\<open>"pending"\<close>; the three optional fields
  default to \<^verbatim>\<open>None\<close>, so an omitted one and an explicit \<^verbatim>\<open>None\<close> are the same
  argument. \<^verbatim>\<open>__post_init__\<close> runs once, after the fields are assigned.
\<close>

definition Order_init ::
  "string \<Rightarrow> string \<Rightarrow> OrderItem list \<Rightarrow> string \<Rightarrow> string option \<Rightarrow> string option \<Rightarrow>
   datetime option \<Rightarrow> datetime option \<Rightarrow> world \<Rightarrow> Order \<times> world" where
  "Order_init restaurant user items delivery_address status order_id created_at updated_at w =
     Order_post_init
       \<lparr>Order_restaurant = restaurant,
        Order_user = user,
        Order_items = items,
        Order_delivery_address = delivery_address,
        Order_status = (case status of None \<Rightarrow> ''pending'' | Some s \<Rightarrow> s),
        Order_order_id = order_id,
        Order_created_at = created_at,
        Order_updated_at = updated_at\<rparr>
       w"

definition Order_to_dict :: "Order \<Rightarrow> pydict" where
  "Order_to_dict self =
     dict_display
       [(''restaurant'', PStr (Order_restaurant self)),
        (''user'', PStr (Order_user self)),
        (''items'', PList (map (\<lambda>item. PDict (OrderItem_to_dict item)) (Order_items self))),
        (''deliveryAddress'', PStr (Order_delivery_address self)),
        (''status'', PStr (Order_status self)),
        (''createdAt'', opt_val PDatetime (Order_created_at self)),
        (''updatedAt'', opt_val PDatetime (Order_updated_at self))]"

section \<open>OrderStatus\<close>

definition PENDING :: string where "PENDING = ''pending''"
definition CONFIRMED :: string where "CONFIRMED = ''confirmed''"
definition PREPARING :: string where "PREPARING = ''preparing''"
definition READY :: string where "READY = ''ready''"
definition OUT_FOR_DELIVERY :: string where "OUT_FOR_DELIVERY = ''out_for_delivery''"
definition DELIVERED :: string where "DELIVERED = ''delivered''"
definition CANCELLED :: string where "CANCELLED = ''cancelled''"

definition get_valid_statuses :: "string list" where
  "get_valid_statuses =
     [PENDING, CONFIRMED, PREPARING, READY, OUT_FOR_DELIVERY, DELIVERED, CANCELLED]"

section \<open>APIError\<close>

text \<open>
  An \<^verbatim>\<open>APIError\<close> object: its two attributes, and the \<^verbatim>\<open>args\<close> tuple that the base
  class \<^verbatim>\<open>Exception\<close> stores from the arguments of its constructor.
\<close>

record APIError =
  APIError_message :: string
  APIError_status_code :: int
  APIError_args :: "string list"

definition Exception_init :: "APIError \<Rightarrow> string list \<Rightarrow> APIError" where
  "Exception_init self args = self\<lparr>APIError_args := args\<rparr>"

text \<open>\<open>status_code\<close> is \<open>None\<close> when the argument is omitted; its default is 400.\<close>

definition APIError_init :: "string \<Rightarrow> int option \<Rightarrow> APIError" where
  "APIError_init message status_code =
     (let self = \<lparr>APIError_message = message,
                  APIError_status_code = (case status_code of None \<Rightarrow> 400 | Some c \<Rightarrow> c),
                  APIError_args = []\<rparr>
      in Exception_init self [APIError_message self])"

text \<open>
  \<^verbatim>\<open>BaseException.__str__\<close>: the empty string for no argument, the string of the
  argument for a single one, and the string of the whole tuple otherwise. How a tuple of
  several strings is printed is the parameter \<open>tuple_str\<close>.
\<close>

definition Exception_str :: "(string list \<Rightarrow> string) \<Rightarrow> APIError \<Rightarrow> string" where
  "Exception_str tuple_str self =
     (case APIError_args self of
        [] \<Rightarrow> []
      | [a] \<Rightarrow> a
      | _ \<Rightarrow> tuple_str (APIError_args self))"

section \<open>Objects on the heap\<close>

text \<open>
  The functions above give the dictionary that \<^verbatim>\<open>to_dict()\<close> computes from the field
  values. To state what a call does to the program's objects, the methods are modelled a
  second time as the statements they are, over an explicit heap: a record is an instance
  with an attribute dictionary, a \<^verbatim>\<open>list\<close> or \<^verbatim>\<open>dict\<close> is an object of its own, and a
  value is either immutable (kept as it is) or a reference to an object. Strings, numbers
  and datetimes are immutable in Python, so they are values.
\<close>

type_synonym addr = nat

datatype hval =
    HNone
  | HStr string
  | HInt int
  | HFloat pyfloat
  | HDatetime datetime
  | HRef addr

datatype obj =
    ODict "(string \<times> hval) list"
  | OList "hval list"
  | OInstance string "(string \<times> hval) list"

type_synonym heap = "obj list"

text \<open>
  The heap is the list of the objects allocated so far; an address is an index. Reading
  an address that was never allocated gives \<open>None\<close>. Allocation appends the new object.
\<close>

definition heap_get :: "heap \<Rightarrow> addr \<Rightarrow> obj option" where
  "heap_get h a = (if a < length h then Some (h ! a) else None)"

definition alloc :: "obj \<Rightarrow> heap \<Rightarrow> hval \<times> heap" where
  "alloc ob h = (HRef (length h), h @ [ob])"

text \<open>
  \<^verbatim>\<open>x.name\<close>: the attribute of an instance. Anything else (no instance, no such
  attribute) raises \<^verbatim>\<open>AttributeError\<close>, which is \<open>None\<close> here, as every error is.
\<close>

definition getattr :: "heap \<Rightarrow> hval \<Rightarrow> string \<Rightarrow> hval option" where
  "getattr h x name =
     (case x of
        HRef a \<Rightarrow>
          (case heap_get h a of
             Some (OInstance cls attrs) \<Rightarrow> map_of attrs name
           | _ \<Rightarrow> None)
      | _ \<Rightarrow> None)"

definition class_of :: "heap \<Rightarrow> hval \<Rightarrow> string option" where
  "class_of h x =
     (case x of
        HRef a \<Rightarrow>
          (case heap_get h a of
             Some (OInstance cls attrs) \<Rightarrow> Some cls
           | _ \<Rightarrow> None)
      | _ \<Rightarrow> None)"

text \<open>
  Dictionaries on the heap: insertion as for \<open>dict_setitem\<close>, and \<^verbatim>\<open>d[k] = v\<close> as an
  update of the dictionary object that \<open>d\<close> refers to.
\<close>

fun hdict_setitem :: "(string \<times> hval) list \<Rightarrow> string \<Rightarrow> hval \<Rightarrow> (string \<times> hval) list" where
  "hdict_setitem [] k v = [(k, v)]"
| "hdict_setitem ((k', v') # d) k v =
     (if k' = k then (k, v) # d else (k', v') # hdict_setitem d k v)"

definition hdict_display :: "(string \<times> hval) list \<Rightarrow> (string \<times> hval) list" where
  "hdict_display kvs = foldl (\<lambda>d (k, v). hdict_setitem d k v) [] kvs"

definition setitem :: "hval \<Rightarrow> string \<Rightarrow> hval \<Rightarrow> heap \<Rightarrow> heap option" where
  "setitem d k v h =
     (case d of
        HRef a \<Rightarrow>
          (case heap_get h a of
             Some (ODict kvs) \<Rightarrow> Some (h[a := ODict (hdict_setitem kvs k v)])
           | _ \<Rightarrow> None)
      | _ \<Rightarrow> None)"

text \<open>
  Truth value testing: \<^verbatim>\<open>None\<close>, the empty string, zero and empty containers are
  false; an instance of a class without \<^verbatim>\<open>__bool__\<close> and \<^verbatim>\<open>__len__\<close> (every class of
  the module, and \<^verbatim>\<open>GeoPoint\<close>) is true.
\<close>

definition truthy :: "heap \<Rightarrow> hval \<Rightarrow> bool option" where
  "truthy h x =
     (case x of
        HNone \<Rightarrow> Some False
      | HStr s \<Rightarrow> Some (s \<noteq> [])
      | HInt i \<Rightarrow> Some (i \<noteq> 0)
      | HFloat f \<Rightarrow> Some (f \<noteq> 0 \<and> f \<noteq> 0x8000000000000000)
      | HDatetime t \<Rightarrow> Some True
      | HRef a \<Rightarrow>
          (case heap_get h a of
             Some (ODict kvs) \<Rightarrow> Some (kvs \<noteq> [])
           | Some (OList vs) \<Rightarrow> Some (vs \<noteq> [])
           | Some (OInstance cls attrs) \<Rightarrow> Some True
           | None \<Rightarrow> None))"

text \<open>
  The content of a value, read through the heap down to a given depth: what a comparison
  with \<^verbatim>\<open>==\<close> or a serialiser sees of it. A reference to an instance has no such
  content, and a structure deeper than the given depth gives \<open>None\<close>.
\<close>

fun snapshot :: "nat \<Rightarrow> heap \<Rightarrow> hval \<Rightarrow> pyval option" where
  "snapshot n h HNone = Some PNone"
| "snapshot n h (HStr s) = Some (PStr s)"
| "snapshot n h (HInt i) = Some (PInt i)"
| "snapshot n h (HFloat f) = Some (PFloat f)"
| "snapshot n h (HDatetime t) = Some (PDatetime t)"
| "snapshot 0 h (HRef a) = None"
| "snapshot (Suc n) h (HRef a) =
     (case heap_get h a of
        Some (ODict kvs) \<Rightarrow>
          map_option PDict (those (map (\<lambda>(k, v). map_option (Pair k) (snapshot n h v)) kvs))
      | Some (OList vs) \<Rightarrow> map_option PList (those (map (snapshot n h) vs))
      | _ \<Rightarrow> None)"

text \<open>
  \<^verbatim>\<open>Restaurant.to_dict\<close>, statement by statement: the dictionary display reads seven
  attributes and allocates \<^verbatim>\<open>data\<close>; each \<^verbatim>\<open>if\<close> reads and tests an attribute of
  \<^verbatim>\<open>self\<close> in the heap as it is at that point, and assigns into \<^verbatim>\<open>data\<close>; the inner
  display for \<^verbatim>\<open>coords\<close> allocates a second dictionary.
\<close>

definition Restaurant_to_dict_heap :: "hval \<Rightarrow> heap \<Rightarrow> (hval \<times> heap) option" where
  "Restaurant_to_dict_heap self h = do {
     v1 \<leftarrow> getattr h self ''id'';
     v2 \<leftarrow> getattr h self ''name'';
     v3 \<leftarrow> getattr h self ''cuisine'';
     v4 \<leftarrow> getattr h self ''address'';
     v5 \<leftarrow> getattr h self ''rating'';
     v6 \<leftarrow> getattr h self ''deliveryFee'';
     v7 \<leftarrow> getattr h self ''estimatedDeliveryTime'';
     (data, h) \<leftarrow> Some (alloc (ODict (hdict_display
        [(''id'', v1), (''name'', v2), (''cuisine'', v3), (''address'', v4), (''rating'', v5),
         (''deliveryFee'', v6), (''estimatedDeliveryTime'', v7)])) h);
     c \<leftarrow> getattr h self ''subname'';
     b \<leftarrow> truthy h c;
     h \<leftarrow> (if b then do {
              v \<leftarrow> getattr h self ''subname'';
              setitem data ''subname'' v h
            } else Some h);
     c \<leftarrow> getattr h self ''coords'';
     b \<leftarrow> truthy h c;
     h \<leftarrow> (if b then do {
              g \<leftarrow> getattr h self ''coords'';
              lat \<leftarrow> getattr h g ''latitude'';
              g \<leftarrow> getattr h self ''coords'';
              lon \<leftarrow> getattr h g ''longitude'';
              (d, h) \<leftarrow> Some (alloc (ODict (hdict_display
                 [(''latitude'', lat), (''longitude'', lon)])) h);
              setitem data ''coords'' d h
            } else Some h);
     Some (data, h)
   }"

text \<open>The \<^verbatim>\<open>to_dict\<close> methods that return one dictionary display.\<close>

definition MenuItem_to_dict_heap :: "hval \<Rightarrow> heap \<Rightarrow> (hval \<times> heap) option" where
  "MenuItem_to_dict_heap self h = do {
     v1 \<leftarrow> getattr h self ''id'';
     v2 \<leftarrow> getattr h self ''name'';
     v3 \<leftarrow> getattr h self ''description'';
     v4 \<leftarrow> getattr h self ''price'';
     Some (alloc (ODict (hdict_display
        [(''id'', v1), (''name'', v2), (''description'', v3), (''price'', v4)])) h)
   }"

definition User_to_dict_heap :: "hval \<Rightarrow> heap \<Rightarrow> (hval \<times> heap) option" where
  "User_to_dict_heap self h = do {
     v1 \<leftarrow> getattr h self ''id'';
     v2 \<leftarrow> getattr h self ''email'';
     v3 \<leftarrow> getattr h self ''name'';
     v4 \<leftarrow> getattr h self ''order_history'';
     Some (alloc (ODict (hdict_display
        [(''id'', v1), (''email'', v2), (''name'', v3), (''orderHistory'', v4)])) h)
   }"

definition OrderItem_to_dict_heap :: "hval \<Rightarrow> heap \<Rightarrow> (hval \<times> heap) option" where
  "OrderItem_to_dict_heap self h = do {
     v1 \<leftarrow> getattr h self ''menu_item_id'';
     Some (alloc (ODict (hdict_display [(''menuItemId'', v1)])) h)
   }"

definition OrderCreationData_to_dict_heap :: "hval \<Rightarrow> heap \<Rightarrow> (hval \<times> heap) option" where
  "OrderCreationData_to_dict_heap self h = do {
     v1 \<leftarrow> getattr h self ''restaurant_id'';
     v2 \<leftarrow> getattr h self ''user_id'';
     v3 \<leftarrow> getattr h self ''item_ids'';
     v4 \<leftarrow> getattr h self ''delivery_address'';
     Some (alloc (ODict (hdict_display
        [(''restaurant'', v1), (''user'', v2), (''items'', v3), (''deliveryAddress'', v4)])) h)
   }"

text \<open>
  \<^verbatim>\<open>[item.to_dict() for item in self.items]\<close>: the call \<^verbatim>\<open>item.to_dict()\<close> is
  dispatched on the class of the item; for the declared element type this is
  \<^verbatim>\<open>OrderItem.to_dict\<close>, and an item of another class is outside \<^verbatim>\<open>List[OrderItem]\<close>.
  The iteration reads the list object at every step, by index, until the index reaches
  its length; the results are collected and the new list is allocated at the end.
\<close>

definition item_to_dict :: "hval \<Rightarrow> heap \<Rightarrow> (hval \<times> heap) option" where
  "item_to_dict item h = do {
     cls \<leftarrow> class_of h item;
     if cls = ''OrderItem'' then OrderItem_to_dict_heap item h else None
   }"

partial_function (option) items_comprehension ::
  "hval \<Rightarrow> nat \<Rightarrow> hval list \<Rightarrow> heap \<Rightarrow> (hval list \<times> heap) option" where
  "items_comprehension xs i acc h =
     (case xs of
        HRef a \<Rightarrow>
          (case heap_get h a of
             Some (OList vs) \<Rightarrow>
               if i < length vs
               then do {
                 (d, h') \<leftarrow> item_to_dict (vs ! i) h;
                 items_comprehension xs (Suc i) (acc @ [d]) h'
               }
               else Some (acc, h)
           | _ \<Rightarrow> None)
      | _ \<Rightarrow> None)"

definition Order_to_dict_heap :: "hval \<Rightarrow> heap \<Rightarrow> (hval \<times> heap) option" where
  "Order_to_dict_heap self h = do {
     v1 \<leftarrow> getattr h self ''restaurant'';
     v2 \<leftarrow> getattr h self ''user'';
     xs \<leftarrow> getattr h self ''items'';
     (ds, h) \<leftarrow> items_comprehension xs 0 [] h;
     (v3, h) \<leftarrow> Some (alloc (OList ds) h);
     v4 \<leftarrow> getattr h self ''delivery_address'';
     v5 \<leftarrow> getattr h self ''status'';
     v6 \<leftarrow> getattr h self ''created_at'';
     v7 \<leftarrow> getattr h self ''updated_at'';
     Some (alloc (ODict (hdict_display
        [(''restaurant'', v1), (''user'', v2), (''items'', v3), (''deliveryAddress'', v4),
         (''status'', v5), (''createdAt'', v6), (''updatedAt'', v7)])) h)
   }"

text \<open>Calling \<^verbatim>\<open>to_dict()\<close> twice on the same object, one call after the other.\<close>

definition call_twice ::
  "(hval \<Rightarrow> heap \<Rightarrow> (hval \<times> heap) option) \<Rightarrow> hval \<Rightarrow> heap \<Rightarrow>
   ((hval \<times> hval) \<times> heap) option" where
  "call_twice to_dict self h = do {
     (d1, h) \<leftarrow> to_dict self h;
     (d2, h) \<leftarrow> to_dict self h;
     Some ((d1, d2), h)
   }"

text \<open>
  The heap holds an instance with the field values of a given record: every attribute
  that the record declares has the record's value, a list-valued field refers to a list
  object with the record's elements, and \<^verbatim>\<open>coords\<close> refers to a \<^verbatim>\<open>GeoPoint\<close> instance.
  This is the state in which the dataclass constructors leave a new object, and in which
  it stays as long as nothing assigns to it.
\<close>

definition opt_hval :: "('a \<Rightarrow> hval) \<Rightarrow> 'a option \<Rightarrow> hval" where
  "opt_hval f x = (case x of None \<Rightarrow> HNone | Some y \<Rightarrow> f y)"

definition str_list_at :: "heap \<Rightarrow> hval \<Rightarrow> string list \<Rightarrow> bool" where
  "str_list_at h x ss =
     (case x of HRef a \<Rightarrow> heap_get h a = Some (OList (map HStr ss)) | _ \<Rightarrow> False)"

definition GeoPoint_at :: "heap \<Rightarrow> hval \<Rightarrow> GeoPoint \<Rightarrow> bool" where
  "GeoPoint_at h x g =
     (getattr h x ''latitude'' = Some (HFloat (latitude g)) \<and>
      getattr h x ''longitude'' = Some (HFloat (longitude g)))"

definition Restaurant_at :: "heap \<Rightarrow> hval \<Rightarrow> Restaurant \<Rightarrow> bool" where
  "Restaurant_at h self r =
     (getattr h self ''id'' = Some (HStr (Restaurant_id r)) \<and>
      getattr h self ''name'' = Some (HStr (Restaurant_name r)) \<and>
      getattr h self ''cuisine'' = Some (HStr (Restaurant_cuisine r)) \<and>
      getattr h self ''address'' = Some (HStr (Restaurant_address r)) \<and>
      getattr h self ''rating'' = Some (HFloat (Restaurant_rating r)) \<and>
      getattr h self ''deliveryFee'' = Some (HFloat (Restaurant_deliveryFee r)) \<and>
      getattr h self ''estimatedDeliveryTime'' =
        Some (HInt (Restaurant_estimatedDeliveryTime r)) \<and>
      getattr h self ''subname'' = Some (opt_hval HStr (Restaurant_subname r)) \<and>
      (case Restaurant_coords r of
         None \<Rightarrow> getattr h self ''coords'' = Some HNone
       | Some g \<Rightarrow>
           (case getattr h self ''coords'' of
              Some x \<Rightarrow> GeoPoint_at h x g
            | None \<Rightarrow> False)))"

definition MenuItem_at :: "heap \<Rightarrow> hval \<Rightarrow> MenuItem \<Rightarrow> bool" where
  "MenuItem_at h self m =
     (getattr h self ''id'' = Some (HStr (MenuItem_id m)) \<and>
      getattr h self ''name'' = Some (HStr (MenuItem_name m)) \<and>
      getattr h self ''description'' = Some (HStr (MenuItem_description m)) \<and>
      getattr h self ''price'' = Some (HFloat (MenuItem_price m)))"

definition User_at :: "heap \<Rightarrow> hval \<Rightarrow> User \<Rightarrow> bool" where
  "User_at h self u =
     (getattr h self ''id'' = Some (HStr (User_id u)) \<and>
      getattr h self ''email'' = Some (HStr (User_email u)) \<and>
      getattr h self ''name'' = Some (HStr (User_name u)) \<and>
      (case User_order_history u of
         None \<Rightarrow> getattr h self ''order_history'' = Some HNone
       | Some ss \<Rightarrow>
           (case getattr h self ''order_history'' of
              Some x \<Rightarrow> str_list_at h x ss
            | None \<Rightarrow> False)))"

definition OrderItem_at :: "heap \<Rightarrow> hval \<Rightarrow> OrderItem \<Rightarrow> bool" where
  "OrderItem_at h x i =
     (class_of h x = Some ''OrderItem'' \<and>
      getattr h x ''menu_item_id'' = Some (HStr (OrderItem_menu_item_id i)))"

definition OrderCreationData_at :: "heap \<Rightarrow> hval \<Rightarrow> OrderCreationData \<Rightarrow> bool" where
  "OrderCreationData_at h self c =
     (getattr h self ''restaurant_id'' = Some (HStr (OrderCreationData_restaurant_id c)) \<and>
      getattr h self ''user_id'' = Some (HStr (OrderCreationData_user_id c)) \<and>
      getattr h self ''delivery_address'' =
        Some (HStr (OrderCreationData_delivery_address c)) \<and>
      (case getattr h self ''item_ids'' of
         Some x \<Rightarrow> str_list_at h x (OrderCreationData_item_ids c)
       | None \<Rightarrow> False))"

definition item_list_at :: "heap \<Rightarrow> hval \<Rightarrow> OrderItem list \<Rightarrow> bool" where
  "item_list_at h x items =
     (case x of
        HRef a \<Rightarrow>
          (case heap_get h a of
             Some (OList vs) \<Rightarrow> list_all2 (OrderItem_at h) vs items
           | _ \<Rightarrow> False)
      | _ \<Rightarrow> False)"

definition Order_at :: "heap \<Rightarrow> hval \<Rightarrow> Order \<Rightarrow> bool" where
  "Order_at h self ord =
     (getattr h self ''restaurant'' = Some (HStr (Order_restaurant ord)) \<and>
      getattr h self ''user'' = Some (HStr (Order_user ord)) \<and>
      getattr h self ''delivery_address'' = Some (HStr (Order_delivery_address ord)) \<and>
      getattr h self ''status'' = Some (HStr (Order_status ord)) \<and>
      getattr h self ''order_id'' = Some (opt_hval HStr (Order_order_id ord)) \<and>
      getattr h self ''created_at'' = Some (opt_hval HDatetime (Order_created_at ord)) \<and>
      getattr h self ''updated_at'' = Some (opt_hval HDatetime (Order_updated_at ord)) \<and>
      (case getattr h self ''items'' of
         Some x \<Rightarrow> item_list_at h x (Order_items ord)
       | None \<Rightarrow> False))"

text \<open>
  What two successive calls of a \<^verbatim>\<open>to_dict\<close> on \<open>self\<close> must do: both return; the heap
  after them still starts with the heap before them, so no object that existed is changed
  and the calls only allocate; the two results are different objects; and the contents of
  both, read in the final heap, are the expected dictionary and compare equal.
\<close>

definition repeatable ::
  "nat \<Rightarrow> (hval \<Rightarrow> heap \<Rightarrow> (hval \<times> heap) option) \<Rightarrow> hval \<Rightarrow> heap \<Rightarrow> pydict \<Rightarrow> bool" where
  "repeatable n to_dict self h expected =
     (case call_twice to_dict self h of
        None \<Rightarrow> False
      | Some ((d1, d2), h') \<Rightarrow>
          take (length h) h' = h \<and>
          d1 \<noteq> d2 \<and>
          (case (snapshot (3 + n) h' d1, snapshot (3 + n) h' d2) of
             (Some (PDict a), Some (PDict b)) \<Rightarrow>
               dict_equal a b \<and> a = expected \<and> b = expected
           | _ \<Rightarrow> False))"

text \<open>
  An example: a heap with one instance of every class, and the records they hold.
\<close>

definition example_heap :: heap where
  "example_heap =
     [OInstance ''GeoPoint''
        [(''latitude'', HFloat 0x4029000000000000), (''longitude'', HFloat 0xC01D000000000000)],
      OInstance ''Restaurant''
        [(''id'', HStr ''r1''), (''name'', HStr ''Luigi''), (''cuisine'', HStr ''italian''),
         (''address'', HStr ''1 Main St''), (''rating'', HFloat 0x4012000000000000),
         (''deliveryFee'', HFloat 0x4000000000000000), (''estimatedDeliveryTime'', HInt 30),
         (''subname'', HStr ''Trattoria''), (''coords'', HRef 0)],
      OInstance ''MenuItem''
        [(''id'', HStr ''m1''), (''name'', HStr ''Pizza''), (''description'', HStr ''Margherita''),
         (''price'', HFloat 0x4022000000000000)],
      OList [HStr ''o1'', HStr ''o2''],
      OInstance ''User''
        [(''id'', HStr ''u1''), (''email'', HStr ''a@b.c''), (''name'', HStr ''Ann''),
         (''order_history'', HRef 3)],
      OInstance ''OrderItem'' [(''menu_item_id'', HStr ''m1'')],
      OInstance ''OrderItem'' [(''menu_item_id'', HStr ''m2'')],
      OList [HStr ''m1'', HStr ''m2''],
      OInstance ''OrderCreationData''
        [(''restaurant_id'', HStr ''r1''), (''user_id'', HStr ''u1''), (''item_ids'', HRef 7),
         (''delivery_address'', HStr ''123 Main St'')],
      OList [HRef 5, HRef 6],
      OInstance ''Order''
        [(''restaurant'', HStr ''r1''), (''user'', HStr ''u1''), (''items'', HRef 9),
         (''delivery_address'', HStr ''123 Main St''), (''status'', HStr ''pending''),
         (''order_id'', HStr ''01234567-89ab-4def-8123-456789abcdef''),
         (''created_at'', HDatetime \<lparr>dt_instant = 1000, dt_tzinfo = Some Utc\<rparr>),
         (''updated_at'', HDatetime \<lparr>dt_instant = 1001, dt_tzinfo = Some Utc\<rparr>)]]"

definition example_Restaurant :: Restaurant where
  "example_Restaurant =
     \<lparr>Restaurant_id = ''r1'', Restaurant_name = ''Luigi'', Restaurant_cuisine = ''italian'',
      Restaurant_address = ''1 Main St'', Restaurant_rating = 0x4012000000000000,
      Restaurant_deliveryFee = 0x4000000000000000, Restaurant_estimatedDeliveryTime = 30,
      Restaurant_subname = Some ''Trattoria'',
      Restaurant_coords =
        Some \<lparr>latitude = 0x4029000000000000, longitude = 0xC01D000000000000\<rparr>\<rparr>"

definition example_MenuItem :: MenuItem where
  "example_MenuItem =
     \<lparr>MenuItem_id = ''m1'', MenuItem_name = ''Pizza'', MenuItem_description = ''Margherita'',
      MenuItem_price = 0x4022000000000000\<rparr>"

definition example_User :: User where
  "example_User =
     \<lparr>User_id = ''u1'', User_email = ''a@b.c'', User_name = ''Ann'',
      User_order_history = Some [''o1'', ''o2'']\<rparr>"

definition example_OrderItem :: OrderItem where
  "example_OrderItem = \<lparr>OrderItem_menu_item_id = ''m1''\<rparr>"

definition example_OrderCreationData :: OrderCreationData where
  "example_OrderCreationData =
     \<lparr>OrderCreationData_restaurant_id = ''r1'', OrderCreationData_user_id = ''u1'',
      OrderCreationData_item_ids = [''m1'', ''m2''],
      OrderCreationData_delivery_address = ''123 Main St''\<rparr>"

definition example_Order :: Order where
  "example_Order =
     \<lparr>Order_restaurant = ''r1'', Order_user = ''u1'',
      Order_items = [\<lparr>OrderItem_menu_item_id = ''m1''\<rparr>, \<lparr>OrderItem_menu_item_id = ''m2''\<rparr>],
      Order_delivery_address = ''123 Main St'', Order_status = ''pending'',
      Order_order_id = Some ''01234567-89ab-4def-8123-456789abcdef'',
      Order_created_at = Some \<lparr>dt_instant = 1000, dt_tzinfo = Some Utc\<rparr>,
      Order_updated_at = Some \<lparr>dt_instant = 1001, dt_tzinfo = Some Utc\<rparr>\<rparr>"

section \<open>Evaluating the dictionaries\<close>

lemma dict_setitem_fresh: "k \<notin> fst ` set d \<Longrightarrow> dict_setitem d k v = d @ [(k, v)]"
  by (induction d) auto

lemma foldl_setitem_distinct:
  "distinct (map fst (acc @ kvs)) \<Longrightarrow>
   foldl (\<lambda>d (k, v). dict_setitem d k v) acc kvs = acc @ kvs"
proof (induction kvs arbitrary: acc)
  case Nil
  then show ?case by simp
next
  case (Cons kv kvs)
  obtain k v where kv: "kv = (k, v)" by (cases kv)
  from Cons.prems kv have fresh: "k \<notin> fst ` set acc" by auto
  from Cons.prems kv have "distinct (map fst ((acc @ [(k, v)]) @ kvs))" by auto
  then have "foldl (\<lambda>d (k, v). dict_setitem d k v) (acc @ [(k, v)]) kvs = (acc @ [(k, v)]) @ kvs"
    by (rule Cons.IH)
  with fresh kv show ?case by (simp add: dict_setitem_fresh)
qed

lemma dict_display_distinct: "distinct (map fst kvs) \<Longrightarrow> dict_display kvs = kvs"
  using foldl_setitem_distinct [of "[]" kvs] by (simp add: dict_display_def)

lemma OrderItem_to_dict_eval:
  "OrderItem_to_dict item = [(''menuItemId'', PStr (OrderItem_menu_item_id item))]"
  by (simp add: OrderItem_to_dict_def dict_display_distinct)

lemma Order_to_dict_eval:
  "Order_to_dict self =
     [(''restaurant'', PStr (Order_restaurant self)),
      (''user'', PStr (Order_user self)),
      (''items'', PList (map (\<lambda>item. PDict (OrderItem_to_dict item)) (Order_items self))),
      (''deliveryAddress'', PStr (Order_delivery_address self)),
      (''status'', PStr (Order_status self)),
      (''createdAt'', opt_val PDatetime (Order_created_at self)),
      (''updatedAt'', opt_val PDatetime (Order_updated_at self))]"
  by (simp add: Order_to_dict_def dict_display_distinct)

lemma Restaurant_to_dict_eval:
  "Restaurant_to_dict self =
     [(''id'', PStr (Restaurant_id self)),
      (''name'', PStr (Restaurant_name self)),
      (''cuisine'', PStr (Restaurant_cuisine self)),
      (''address'', PStr (Restaurant_address self)),
      (''rating'', PFloat (Restaurant_rating self)),
      (''deliveryFee'', PFloat (Restaurant_deliveryFee self)),
      (''estimatedDeliveryTime'', PInt (Restaurant_estimatedDeliveryTime self))] @
     (case Restaurant_subname self of
        None \<Rightarrow> []
      | Some s \<Rightarrow> if s = [] then [] else [(''subname'', PStr s)]) @
     (case Restaurant_coords self of
        None \<Rightarrow> []
      | Some g \<Rightarrow>
          [(''coords'', PDict [(''latitude'', PFloat (latitude g)),
                              (''longitude'', PFloat (longitude g))])])"
  by (simp add: Restaurant_to_dict_def GeoPoint_to_dict_def dict_display_distinct Let_def
      truthy_str_def truthy_obj_def opt_val_def split: option.splits)

lemma User_to_dict_eval:
  "User_to_dict self =
     [(''id'', PStr (User_id self)),
      (''email'', PStr (User_email self)),
      (''name'', PStr (User_name self)),
      (''orderHistory'', opt_val str_list_val (User_order_history self))]"
  by (simp add: User_to_dict_def dict_display_distinct)

lemma MenuItem_to_dict_eval:
  "MenuItem_to_dict self =
     [(''id'', PStr (MenuItem_id self)),
      (''name'', PStr (MenuItem_name self)),
      (''description'', PStr (MenuItem_description self)),
      (''price'', PFloat (MenuItem_price self))]"
  by (simp add: MenuItem_to_dict_def dict_display_distinct)

lemma OrderCreationData_to_dict_eval:
  "OrderCreationData_to_dict self =
     [(''restaurant'', PStr (OrderCreationData_restaurant_id self)),
      (''user'', PStr (OrderCreationData_user_id self)),
      (''items'', str_list_val (OrderCreationData_item_ids self)),
      (''deliveryAddress'', PStr (OrderCreationData_delivery_address self))]"
  by (simp add: OrderCreationData_to_dict_def dict_display_distinct)

lemma Restaurant_to_dict_keys:
  "dict_keys (Restaurant_to_dict self) =
     [''id'', ''name'', ''cuisine'', ''address'', ''rating'', ''deliveryFee'',
      ''estimatedDeliveryTime''] @
     (if truthy_str (Restaurant_subname self) then [''subname''] else []) @
     (if Restaurant_coords self = None then [] else [''coords''])"
  by (cases "Restaurant_subname self"; cases "Restaurant_coords self";
      simp add: Restaurant_to_dict_eval dict_keys_def truthy_str_def)

text \<open>
  A restaurant with an empty subname and a stored coordinate (12.5, -7.25, as bit
  patterns): the key subname is left out, the key coords is appended.
\<close>

lemma Restaurant_to_dict_example:
  "Restaurant_to_dict
     \<lparr>Restaurant_id = ''r1'', Restaurant_name = ''Luigi'', Restaurant_cuisine = ''it'',
      Restaurant_address = ''1 Main St'', Restaurant_rating = 0x4012000000000000,
      Restaurant_deliveryFee = 0x4000000000000000, Restaurant_estimatedDeliveryTime = 30,
      Restaurant_subname = Some [],
      Restaurant_coords =
        Some \<lparr>latitude = 0x4029000000000000, longitude = 0xC01D000000000000\<rparr>\<rparr> =
   [(''id'', PStr ''r1''), (''name'', PStr ''Luigi''), (''cuisine'', PStr ''it''),
    (''address'', PStr ''1 Main St''), (''rating'', PFloat 0x4012000000000000),
    (''deliveryFee'', PFloat 0x4000000000000000), (''estimatedDeliveryTime'', PInt 30),
    (''coords'', PDict [(''latitude'', PFloat 0x4029000000000000),
                        (''longitude'', PFloat 0xC01D000000000000)])]"
  by (simp add: Restaurant_to_dict_def GeoPoint_to_dict_def dict_display_def truthy_str_def
      truthy_obj_def opt_val_def)

lemma dict_equal_refl: "distinct (dict_keys d) \<Longrightarrow> dict_equal d d"
  by (auto simp: dict_equal_def dict_get_def dict_keys_def list_all_iff)

section \<open>The textual form of the generated identifier\<close>

lemma is_hex_char_hex_digit: "is_hex_char (hex_digit n)"
proof -
  have "n mod 16 < length ''0123456789abcdef''" by simp
  then have "''0123456789abcdef'' ! (n mod 16) \<in> set ''0123456789abcdef''"
    by (rule nth_mem)
  then show ?thesis by (simp only: is_hex_char_def hex_digit_def)
qed

lemma length_hex32: "length (hex32 x) = 32"
  by (simp add: hex32_def)

lemma hex32_all_hex: "list_all is_hex_char (hex32 x)"
  by (simp add: hex32_def list_all_iff is_hex_char_hex_digit)

lemma list_all_take: "list_all P xs \<Longrightarrow> list_all P (take n xs)"
  by (auto simp: list_all_iff dest: in_set_takeD)

lemma list_all_drop: "list_all P xs \<Longrightarrow> list_all P (drop n xs)"
  by (auto simp: list_all_iff dest: in_set_dropD)

lemma canonical_groups:
  assumes "length a = 8" "length b = 4" "length c = 4" "length d = 4" "length e = 12"
    and "list_all is_hex_char a" "list_all is_hex_char b" "list_all is_hex_char c"
      "list_all is_hex_char d" "list_all is_hex_char e"
  shows "canonical_uuid (a @ ''-'' @ b @ ''-'' @ c @ ''-'' @ d @ ''-'' @ e)"
  using assms by (simp add: canonical_uuid_def nth_append)

lemma canonical_uuid_str: "canonical_uuid (uuid_str x)"
  unfolding uuid_str_def Let_def
  by (rule canonical_groups)
     (simp_all add: length_hex32 list_all_take list_all_drop hex32_all_hex)

lemma lt4: "(n::nat) < 4 \<Longrightarrow> n = 0 \<or> n = 1 \<or> n = 2 \<or> n = 3"
  by arith

lemma uuid_version_nibble: "drop_bit 76 (uuid_of_random r) AND 15 = 4"
proof (rule bit_word_eqI)
  fix n
  assume "n < LENGTH(128)"
  have m: "(15 :: 128 word) = mask 4" by (simp add: mask_eq_exp_minus_1)
  show "bit (drop_bit 76 (uuid_of_random r) AND 15) n = bit (4 :: 128 word) n"
  proof (cases "n < 4")
    case True
    then have "n = 0 \<or> n = 1 \<or> n = 2 \<or> n = 3" by (rule lt4)
    then show ?thesis
      unfolding uuid_of_random_def
      by (elim disjE) (simp_all add: bit_simps)
  next
    case False
    have four: "(4 :: 128 word) = push_bit 2 1" by simp
    have "bit (push_bit 2 (1 :: 128 word)) n \<Longrightarrow> n = 2"
      by (auto simp only: bit_push_bit_iff bit_1_iff)
    with False have "\<not> bit (4 :: 128 word) n"
      unfolding four by auto
    then show ?thesis using False by (simp add: m bit_simps)
  qed
qed

lemma uuid_str_version_digit: "uuid_str (uuid_of_random r) ! 14 = CHR ''4''"
proof -
  have "hex32 (uuid_of_random r) ! 12 = hex_digit (unat (drop_bit 76 (uuid_of_random r) AND 15))"
    by (simp add: hex32_def)
  also have "\<dots> = CHR ''4''"
    by (simp add: uuid_version_nibble hex_digit_def)
  finally have "hex32 (uuid_of_random r) ! 12 = CHR ''4''" .
  moreover have "length (hex32 (uuid_of_random r)) = 32" by (simp add: hex32_def)
  ultimately show ?thesis
    by (simp add: uuid_str_def Let_def nth_append)
qed

text \<open>Two identifiers computed from given random bytes.\<close>

lemma uuid_str_example:
  "uuid_str (uuid_of_random 0x0123456789abcdef0123456789abcdef) =
     ''01234567-89ab-4def-8123-456789abcdef''"
  by code_simp

lemma uuid_str_example_ones:
  "uuid_str (uuid_of_random (- 1)) = ''ffffffff-ffff-4fff-bfff-ffffffffffff''"
  by code_simp

section \<open>Construction and serialisation of an Order\<close>

lemma Order_post_init_status:
  "Order_status (fst (Order_post_init self w)) = Order_status self"
  by (simp add: Order_post_init_def uuid4_def datetime_now_utc_def Let_def
      split: prod.splits)

text \<open>
  Claim C1: an Order constructed with \<^verbatim>\<open>order_id\<close>, \<^verbatim>\<open>created_at\<close> and
  \<^verbatim>\<open>updated_at\<close> all absent has all three fields set after construction. The
  \<^verbatim>\<open>order_id\<close> is the string of a version-4 UUID made from the next unread 16 bytes of
  the random source, and it has the canonical textual form; \<^verbatim>\<open>created_at\<close> and
  \<^verbatim>\<open>updated_at\<close> are aware UTC values, each from one reading of the clock (two
  successive readings in all). Each default is applied on its own: a field that was
  supplied keeps its value and consumes nothing from the environment, a field that was
  absent is filled.
\<close>

theorem Order_init_defaults:
  "(case Order_init r u its a st None None None w of
      (self, w') \<Rightarrow>
        Order_order_id self =
          Some (uuid_str (uuid_of_random (urandom w (urandom_reads w)))) \<and>
        Order_created_at self =
          Some \<lparr>dt_instant = clock w (clock_reads w), dt_tzinfo = Some Utc\<rparr> \<and>
        Order_updated_at self =
          Some \<lparr>dt_instant = clock w (Suc (clock_reads w)), dt_tzinfo = Some Utc\<rparr> \<and>
        urandom_reads w' = Suc (urandom_reads w) \<and>
        clock_reads w' = Suc (Suc (clock_reads w))) \<and>
   canonical_uuid (uuid_str (uuid_of_random x)) \<and>
   uuid_str (uuid_of_random x) ! 14 = CHR ''4'' \<and>
   (case Order_init r u its a st oid ca ua w of
      (self, w') \<Rightarrow>
        Order_order_id self =
          Some (case oid of
                  Some i \<Rightarrow> i
                | None \<Rightarrow> uuid_str (uuid_of_random (urandom w (urandom_reads w)))) \<and>
        Order_created_at self =
          Some (case ca of
                  Some t \<Rightarrow> t
                | None \<Rightarrow> \<lparr>dt_instant = clock w (clock_reads w), dt_tzinfo = Some Utc\<rparr>) \<and>
        Order_updated_at self =
          Some (case ua of
                  Some t \<Rightarrow> t
                | None \<Rightarrow>
                    \<lparr>dt_instant = clock w (clock_reads w + (if ca = None then 1 else 0)),
                     dt_tzinfo = Some Utc\<rparr>) \<and>
        urandom_reads w' = urandom_reads w + (if oid = None then 1 else 0) \<and>
        clock_reads w' =
          clock_reads w + (if ca = None then 1 else 0) + (if ua = None then 1 else 0))"
proof -
  have all_absent:
    "Order_init r u its a st None None None w =
       (\<lparr>Order_restaurant = r, Order_user = u, Order_items = its,
         Order_delivery_address = a,
         Order_status = (case st of None \<Rightarrow> ''pending'' | Some s \<Rightarrow> s),
         Order_order_id = Some (uuid_str (uuid_of_random (urandom w (urandom_reads w)))),
         Order_created_at =
           Some \<lparr>dt_instant = clock w (clock_reads w), dt_tzinfo = Some Utc\<rparr>,
         Order_updated_at =
           Some \<lparr>dt_instant = clock w (Suc (clock_reads w)), dt_tzinfo = Some Utc\<rparr>\<rparr>,
        w\<lparr>urandom_reads := Suc (urandom_reads w),
          clock_reads := Suc (Suc (clock_reads w))\<rparr>)"
    by (simp add: Order_init_def Order_post_init_def uuid4_def datetime_now_utc_def)
  have general:
    "(case Order_init r u its a st oid ca ua w of
      (self, w') \<Rightarrow>
        Order_order_id self =
          Some (case oid of
                  Some i \<Rightarrow> i
                | None \<Rightarrow> uuid_str (uuid_of_random (urandom w (urandom_reads w)))) \<and>
        Order_created_at self =
          Some (case ca of
                  Some t \<Rightarrow> t
                | None \<Rightarrow> \<lparr>dt_instant = clock w (clock_reads w), dt_tzinfo = Some Utc\<rparr>) \<and>
        Order_updated_at self =
          Some (case ua of
                  Some t \<Rightarrow> t
                | None \<Rightarrow>
                    \<lparr>dt_instant = clock w (clock_reads w + (if ca = None then 1 else 0)),
                     dt_tzinfo = Some Utc\<rparr>) \<and>
        urandom_reads w' = urandom_reads w + (if oid = None then 1 else 0) \<and>
        clock_reads w' =
          clock_reads w + (if ca = None then 1 else 0) + (if ua = None then 1 else 0))"
    by (cases oid; cases ca; cases ua;
        simp add: Order_init_def Order_post_init_def uuid4_def datetime_now_utc_def)
  show ?thesis
    using general by (simp add: all_absent canonical_uuid_str uuid_str_version_digit)
qed

text \<open>
  Claim C2: for every Order, \<^verbatim>\<open>to_dict()\<close> has exactly the keys restaurant, user,
  items, deliveryAddress, status, createdAt, updatedAt; \<^verbatim>\<open>order_id\<close> is not among
  them. Under items stands the list of the \<^verbatim>\<open>to_dict()\<close> outputs of the order's items,
  element by element in the original order, and createdAt and updatedAt carry the stored
  \<^verbatim>\<open>created_at\<close> and \<^verbatim>\<open>updated_at\<close> unchanged.
\<close>

theorem Order_to_dict_shape:
  "dict_keys (Order_to_dict self) =
     [''restaurant'', ''user'', ''items'', ''deliveryAddress'', ''status'', ''createdAt'',
      ''updatedAt''] \<and>
   set (dict_keys (Order_to_dict self)) =
     {''restaurant'', ''user'', ''items'', ''deliveryAddress'', ''status'', ''createdAt'',
      ''updatedAt''} \<and>
   ''order_id'' \<notin> set (dict_keys (Order_to_dict self)) \<and>
   dict_get (Order_to_dict self) ''order_id'' = None \<and>
   dict_get (Order_to_dict self) ''items'' =
     Some (PList (map (\<lambda>item. PDict (OrderItem_to_dict item)) (Order_items self))) \<and>
   dict_get (Order_to_dict self) ''createdAt'' =
     Some (case Order_created_at self of None \<Rightarrow> PNone | Some t \<Rightarrow> PDatetime t) \<and>
   dict_get (Order_to_dict self) ''updatedAt'' =
     Some (case Order_updated_at self of None \<Rightarrow> PNone | Some t \<Rightarrow> PDatetime t) \<and>
   dict_get (Order_to_dict self) ''restaurant'' = Some (PStr (Order_restaurant self)) \<and>
   dict_get (Order_to_dict self) ''user'' = Some (PStr (Order_user self)) \<and>
   dict_get (Order_to_dict self) ''deliveryAddress'' =
     Some (PStr (Order_delivery_address self)) \<and>
   dict_get (Order_to_dict self) ''status'' = Some (PStr (Order_status self))"
  by (simp add: Order_to_dict_eval dict_keys_def dict_get_def opt_val_def)

text \<open>
  Claim C5: constructing \<^verbatim>\<open>Order(restaurant="r1", user="u1", items=[OrderItem("m1"),
  OrderItem("m2")], delivery_address="123 Main St")\<close> in any environment and calling
  \<^verbatim>\<open>to_dict()\<close> gives exactly the dictionary with restaurant "r1", user "u1", the two
  item dictionaries in order, deliveryAddress "123 Main St", status "pending", and the two
  timestamps read from the clock, neither of which is \<^verbatim>\<open>None\<close>.
\<close>

theorem Order_round_trip:
  "Order_to_dict
     (fst (Order_init ''r1'' ''u1''
        [\<lparr>OrderItem_menu_item_id = ''m1''\<rparr>, \<lparr>OrderItem_menu_item_id = ''m2''\<rparr>]
        ''123 Main St'' None None None None w)) =
   [(''restaurant'', PStr ''r1''),
    (''user'', PStr ''u1''),
    (''items'', PList [PDict [(''menuItemId'', PStr ''m1'')],
                       PDict [(''menuItemId'', PStr ''m2'')]]),
    (''deliveryAddress'', PStr ''123 Main St''),
    (''status'', PStr ''pending''),
    (''createdAt'',
       PDatetime \<lparr>dt_instant = clock w (clock_reads w), dt_tzinfo = Some Utc\<rparr>),
    (''updatedAt'',
       PDatetime \<lparr>dt_instant = clock w (Suc (clock_reads w)), dt_tzinfo = Some Utc\<rparr>)] \<and>
   dict_get
     (Order_to_dict
        (fst (Order_init ''r1'' ''u1''
           [\<lparr>OrderItem_menu_item_id = ''m1''\<rparr>, \<lparr>OrderItem_menu_item_id = ''m2''\<rparr>]
           ''123 Main St'' None None None None w)))
     ''createdAt'' \<noteq> Some PNone \<and>
   dict_get
     (Order_to_dict
        (fst (Order_init ''r1'' ''u1''
           [\<lparr>OrderItem_menu_item_id = ''m1''\<rparr>, \<lparr>OrderItem_menu_item_id = ''m2''\<rparr>]
           ''123 Main St'' None None None None w)))
     ''updatedAt'' \<noteq> Some PNone"
  by (simp add: Order_to_dict_eval OrderItem_to_dict_eval Order_init_def Order_post_init_def
      uuid4_def datetime_now_utc_def opt_val_def dict_get_def)

text \<open>
  Claim C9: an Order constructed without an explicit status has the status "pending",
  whatever the other arguments and the environment are; this string equals
  \<^verbatim>\<open>OrderStatus.PENDING\<close> and is an element of the list returned by
  \<^verbatim>\<open>OrderStatus.get_valid_statuses()\<close>.
\<close>

theorem default_status_is_valid:
  "Order_status (fst (Order_init r u its a None oid ca ua w)) = ''pending'' \<and>
   Order_status (fst (Order_init r u its a None oid ca ua w)) = PENDING \<and>
   Order_status (fst (Order_init r u its a None oid ca ua w)) \<in> set get_valid_statuses"
  by (simp add: Order_init_def Order_post_init_status get_valid_statuses_def PENDING_def)

section \<open>Serialisation of Restaurant and User\<close>

text \<open>
  Claim C3: for every Restaurant, \<^verbatim>\<open>to_dict()\<close> holds the stored values under the keys
  id, name, cuisine, address, rating, deliveryFee and estimatedDeliveryTime. The key
  subname is present exactly when the stored subname is a non-empty string, and then holds
  it; the key coords is present exactly when a coordinate is stored, and then holds the
  nested dictionary of its latitude and longitude. An absent subname or coords gives no
  key at all, never a key holding \<^verbatim>\<open>None\<close>.
\<close>

theorem Restaurant_to_dict_shape:
  "dict_get (Restaurant_to_dict self) ''id'' = Some (PStr (Restaurant_id self)) \<and>
   dict_get (Restaurant_to_dict self) ''name'' = Some (PStr (Restaurant_name self)) \<and>
   dict_get (Restaurant_to_dict self) ''cuisine'' = Some (PStr (Restaurant_cuisine self)) \<and>
   dict_get (Restaurant_to_dict self) ''address'' = Some (PStr (Restaurant_address self)) \<and>
   dict_get (Restaurant_to_dict self) ''rating'' = Some (PFloat (Restaurant_rating self)) \<and>
   dict_get (Restaurant_to_dict self) ''deliveryFee'' =
     Some (PFloat (Restaurant_deliveryFee self)) \<and>
   dict_get (Restaurant_to_dict self) ''estimatedDeliveryTime'' =
     Some (PInt (Restaurant_estimatedDeliveryTime self)) \<and>
   (''subname'' \<in> set (dict_keys (Restaurant_to_dict self))) =
     (\<exists>s. Restaurant_subname self = Some s \<and> s \<noteq> []) \<and>
   dict_get (Restaurant_to_dict self) ''subname'' =
     (case Restaurant_subname self of
        None \<Rightarrow> None
      | Some s \<Rightarrow> if s = [] then None else Some (PStr s)) \<and>
   (''coords'' \<in> set (dict_keys (Restaurant_to_dict self))) =
     (Restaurant_coords self \<noteq> None) \<and>
   dict_get (Restaurant_to_dict self) ''coords'' =
     (case Restaurant_coords self of
        None \<Rightarrow> None
      | Some g \<Rightarrow>
          Some (PDict [(''latitude'', PFloat (latitude g)),
                       (''longitude'', PFloat (longitude g))])) \<and>
   dict_get (Restaurant_to_dict self) ''subname'' \<noteq> Some PNone \<and>
   dict_get (Restaurant_to_dict self) ''coords'' \<noteq> Some PNone \<and>
   dict_keys (Restaurant_to_dict self) =
     [''id'', ''name'', ''cuisine'', ''address'', ''rating'', ''deliveryFee'',
      ''estimatedDeliveryTime''] @
     (if truthy_str (Restaurant_subname self) then [''subname''] else []) @
     (if Restaurant_coords self = None then [] else [''coords''])"
  by (cases "Restaurant_subname self"; cases "Restaurant_coords self";
      simp add: Restaurant_to_dict_eval dict_keys_def dict_get_def truthy_str_def)

text \<open>
  Claim C4: a User constructed without \<^verbatim>\<open>order_history\<close> has the empty list as its
  order history, so \<^verbatim>\<open>to_dict()["orderHistory"]\<close> is the empty list; for every
  constructed User the key orderHistory is present and does not hold \<^verbatim>\<open>None\<close>. For
  every User, \<^verbatim>\<open>to_dict()\<close> has exactly the keys id, email, name, orderHistory, the
  last holding the stored \<^verbatim>\<open>order_history\<close>.
\<close>

theorem User_order_history_default:
  "User_order_history (User_init i e n None) = Some [] \<and>
   dict_get (User_to_dict (User_init i e n None)) ''orderHistory'' = Some (PList []) \<and>
   User_order_history (User_init i e n h) \<noteq> None \<and>
   dict_get (User_to_dict (User_init i e n h)) ''orderHistory'' \<noteq> Some PNone \<and>
   dict_get (User_to_dict (User_init i e n h)) ''orderHistory'' \<noteq> None \<and>
   dict_keys (User_to_dict u) = [''id'', ''email'', ''name'', ''orderHistory''] \<and>
   dict_get (User_to_dict u) ''orderHistory'' =
     Some (case User_order_history u of None \<Rightarrow> PNone | Some hs \<Rightarrow> PList (map PStr hs))"
  by (simp add: User_to_dict_eval User_init_def User_post_init_def dict_keys_def dict_get_def
      opt_val_def str_list_val_def split: option.splits)

section \<open>The status list and the error type\<close>

text \<open>
  Claim C6: \<^verbatim>\<open>OrderStatus.get_valid_statuses()\<close> returns exactly the seven status
  strings pending, confirmed, preparing, ready, out_for_delivery, delivered, cancelled, in
  this order; the list has length 7 and no element occurs twice.
\<close>

theorem get_valid_statuses_exact:
  "get_valid_statuses =
     [''pending'', ''confirmed'', ''preparing'', ''ready'', ''out_for_delivery'',
      ''delivered'', ''cancelled''] \<and>
   length get_valid_statuses = 7 \<and>
   distinct get_valid_statuses"
  by (simp add: get_valid_statuses_def PENDING_def CONFIRMED_def PREPARING_def READY_def
      OUT_FOR_DELIVERY_def DELIVERED_def CANCELLED_def)

text \<open>
  Claim C7: \<^verbatim>\<open>APIError("Not found", 404)\<close> has message "Not found" and status code
  404; \<^verbatim>\<open>APIError("Bad input")\<close>, with the status code omitted, has status code 400;
  and for every message \<open>m\<close> and optional code \<open>c\<close> the constructed object carries \<open>m\<close>
  as its message and \<open>c\<close> (400 when omitted) as its status code.
\<close>

theorem APIError_attributes:
  "APIError_message (APIError_init ''Not found'' (Some 404)) = ''Not found'' \<and>
   APIError_status_code (APIError_init ''Not found'' (Some 404)) = 404 \<and>
   APIError_message (APIError_init ''Bad input'' None) = ''Bad input'' \<and>
   APIError_status_code (APIError_init ''Bad input'' None) = 400 \<and>
   APIError_message (APIError_init m c) = m \<and>
   APIError_status_code (APIError_init m c) = (case c of None \<Rightarrow> 400 | Some k \<Rightarrow> k)"
  by (simp add: APIError_init_def Exception_init_def)

text \<open>
  Claim C10: the constructor of \<^verbatim>\<open>APIError\<close> passes exactly the message to the base
  exception, so the stored argument tuple is the one-element tuple of the message and the
  string form of the error is the message itself, whatever the status code is.
\<close>

theorem APIError_str_is_message:
  "APIError_args (APIError_init m c) = [m] \<and>
   Exception_str tuple_str (APIError_init m c) = m"
  by (simp add: APIError_init_def Exception_init_def Exception_str_def)

section \<open>Repeated serialisation\<close>

subsection \<open>Heaps that grow\<close>

lemma heap_get_append: "heap_get h a = Some ob \<Longrightarrow> heap_get (h @ ext) a = Some ob"
  by (auto simp: heap_get_def nth_append split: if_splits)

lemma getattr_append: "getattr h x k = Some v \<Longrightarrow> getattr (h @ ext) x k = Some v"
  by (auto simp: getattr_def heap_get_append split: hval.splits option.splits obj.splits)

lemma class_of_append: "class_of h x = Some c \<Longrightarrow> class_of (h @ ext) x = Some c"
  by (auto simp: class_of_def heap_get_append split: hval.splits option.splits obj.splits)

lemma str_list_at_append: "str_list_at h x ss \<Longrightarrow> str_list_at (h @ ext) x ss"
  by (auto simp: str_list_at_def heap_get_append split: hval.splits)

lemma GeoPoint_at_append: "GeoPoint_at h x g \<Longrightarrow> GeoPoint_at (h @ ext) x g"
  by (simp add: GeoPoint_at_def getattr_append)

lemma MenuItem_at_append: "MenuItem_at h x m \<Longrightarrow> MenuItem_at (h @ ext) x m"
  by (simp add: MenuItem_at_def getattr_append)

lemma OrderItem_at_append: "OrderItem_at h x i \<Longrightarrow> OrderItem_at (h @ ext) x i"
  by (simp add: OrderItem_at_def getattr_append class_of_append)

lemma Restaurant_at_append: "Restaurant_at h x r \<Longrightarrow> Restaurant_at (h @ ext) x r"
  by (auto simp: Restaurant_at_def getattr_append GeoPoint_at_append split: option.splits)

lemma User_at_append: "User_at h x u \<Longrightarrow> User_at (h @ ext) x u"
  by (auto simp: User_at_def getattr_append str_list_at_append split: option.splits)

lemma OrderCreationData_at_append:
  "OrderCreationData_at h x c \<Longrightarrow> OrderCreationData_at (h @ ext) x c"
  by (auto simp: OrderCreationData_at_def getattr_append str_list_at_append
      split: option.splits)

lemma item_list_at_append: "item_list_at h x items \<Longrightarrow> item_list_at (h @ ext) x items"
  by (auto simp: item_list_at_def heap_get_append OrderItem_at_append
      split: hval.splits option.splits obj.splits elim: list_all2_mono)

lemma Order_at_append: "Order_at h x ord \<Longrightarrow> Order_at (h @ ext) x ord"
  by (auto simp: Order_at_def getattr_append item_list_at_append split: option.splits)

lemma those_map_mono:
  "those (map f xs) = Some ys \<Longrightarrow> (\<And>x y. x \<in> set xs \<Longrightarrow> f x = Some y \<Longrightarrow> g x = Some y) \<Longrightarrow>
   those (map g xs) = Some ys"
proof (induction xs arbitrary: ys)
  case Nil
  then show ?case by simp
next
  case (Cons x xs)
  then show ?case by (auto split: option.splits)
qed

lemma snapshot_append: "snapshot n h v = Some p \<Longrightarrow> snapshot n (h @ ext) v = Some p"
proof (induction n arbitrary: v p)
  case 0
  then show ?case by (cases v) auto
next
  case (Suc n)
  show ?case
  proof (cases v)
    case (HRef a)
    with Suc.prems obtain ob where ob: "heap_get h a = Some ob"
      by (auto split: option.splits)
    then have ob': "heap_get (h @ ext) a = Some ob" by (rule heap_get_append)
    show ?thesis
    proof (cases ob)
      case (ODict kvs)
      with Suc.prems HRef ob obtain ys where
        ys: "those (map (\<lambda>(k, v). map_option (Pair k) (snapshot n h v)) kvs) = Some ys"
        and p: "p = PDict ys"
        by auto
      have "those (map (\<lambda>(k, v). map_option (Pair k) (snapshot n (h @ ext) v)) kvs) = Some ys"
        using ys by (rule those_map_mono) (auto dest: Suc.IH)
      with HRef ob' ODict p show ?thesis by simp
    next
      case (OList vs)
      with Suc.prems HRef ob obtain ys where
        ys: "those (map (snapshot n h) vs) = Some ys" and p: "p = PList ys"
        by auto
      have "those (map (snapshot n (h @ ext)) vs) = Some ys"
        using ys by (rule those_map_mono) (auto dest: Suc.IH)
      with HRef ob' OList p show ?thesis by simp
    next
      case (OInstance c attrs)
      with Suc.prems HRef ob show ?thesis by simp
    qed
  qed (use Suc.prems in auto)
qed

lemma repeatableI:
  assumes c1: "to_dict self h = Some (HRef a1, h @ e1)"
    and a1: "a1 < length (h @ e1)"
    and s1: "snapshot (3 + n) (h @ e1) (HRef a1) = Some (PDict x)"
    and c2: "to_dict self (h @ e1) = Some (HRef a2, (h @ e1) @ e2)"
    and a2: "length (h @ e1) \<le> a2"
    and s2: "snapshot (3 + n) ((h @ e1) @ e2) (HRef a2) = Some (PDict x)"
    and d: "distinct (dict_keys x)"
  shows "repeatable n to_dict self h x"
proof -
  have "snapshot (3 + n) ((h @ e1) @ e2) (HRef a1) = Some (PDict x)"
    using s1 by (rule snapshot_append)
  moreover have "a1 \<noteq> a2" using a1 a2 by simp
  ultimately show ?thesis
    using c1 c2 s2 d by (simp add: repeatable_def call_twice_def dict_equal_refl)
qed

lemma hdict_setitem_fresh: "k \<notin> fst ` set d \<Longrightarrow> hdict_setitem d k v = d @ [(k, v)]"
  by (induction d) auto

lemma foldl_hsetitem_distinct:
  "distinct (map fst (acc @ kvs)) \<Longrightarrow>
   foldl (\<lambda>d (k, v). hdict_setitem d k v) acc kvs = acc @ kvs"
proof (induction kvs arbitrary: acc)
  case Nil
  then show ?case by simp
next
  case (Cons kv kvs)
  obtain k v where kv: "kv = (k, v)" by (cases kv)
  from Cons.prems kv have fresh: "k \<notin> fst ` set acc" by auto
  from Cons.prems kv have "distinct (map fst ((acc @ [(k, v)]) @ kvs))" by auto
  then have "foldl (\<lambda>d (k, v). hdict_setitem d k v) (acc @ [(k, v)]) kvs = (acc @ [(k, v)]) @ kvs"
    by (rule Cons.IH)
  with fresh kv show ?case by (simp add: hdict_setitem_fresh)
qed

lemma hdict_display_distinct: "distinct (map fst kvs) \<Longrightarrow> hdict_display kvs = kvs"
  using foldl_hsetitem_distinct [of "[]" kvs] by (simp add: hdict_display_def)

lemma heap_get_new: "heap_get (h @ ob # e) (length h) = Some ob"
  by (simp add: heap_get_def)

lemma snapshot_strs: "those (map (snapshot n h \<circ> HStr) ss) = Some (map PStr ss)"
  by (induction ss) auto

lemma snapshot_str_list:
  "str_list_at h x ss \<Longrightarrow> snapshot (Suc n) h x = Some (PList (map PStr ss))"
  by (cases x) (auto simp: str_list_at_def snapshot_strs)

lemma fuel_three: "3 + n = Suc (Suc (Suc n))"
  by simp

lemma MenuItem_call:
  assumes "MenuItem_at h self m"
  shows "\<exists>a e. MenuItem_to_dict_heap self h = Some (HRef a, h @ e) \<and> length h \<le> a \<and>
           a < length (h @ e) \<and>
           snapshot (3 + n) (h @ e) (HRef a) = Some (PDict (MenuItem_to_dict m))"
proof -
  let ?d = "ODict [(''id'', HStr (MenuItem_id m)), (''name'', HStr (MenuItem_name m)),
                   (''description'', HStr (MenuItem_description m)),
                   (''price'', HFloat (MenuItem_price m))]"
  have call: "MenuItem_to_dict_heap self h = Some (HRef (length h), h @ [?d])"
    using assms
    by (simp add: MenuItem_to_dict_heap_def MenuItem_at_def alloc_def hdict_display_distinct)
  have "snapshot (3 + n) (h @ [?d]) (HRef (length h)) = Some (PDict (MenuItem_to_dict m))"
    by (simp add: fuel_three heap_get_new MenuItem_to_dict_eval)
  with call show ?thesis by (intro exI [of _ "length h"] exI [of _ "[?d]"]) simp
qed

lemma OrderItem_single:
  assumes "OrderItem_at h self i"
  shows "OrderItem_to_dict_heap self h =
           Some (HRef (length h),
                 h @ [ODict [(''menuItemId'', HStr (OrderItem_menu_item_id i))]])"
  using assms
  by (simp add: OrderItem_to_dict_heap_def OrderItem_at_def alloc_def hdict_display_distinct)

lemma OrderItem_call:
  assumes "OrderItem_at h self i"
  shows "\<exists>a e. OrderItem_to_dict_heap self h = Some (HRef a, h @ e) \<and> length h \<le> a \<and>
           a < length (h @ e) \<and>
           snapshot (3 + n) (h @ e) (HRef a) = Some (PDict (OrderItem_to_dict i))"
proof -
  let ?d = "ODict [(''menuItemId'', HStr (OrderItem_menu_item_id i))]"
  have "snapshot (3 + n) (h @ [?d]) (HRef (length h)) = Some (PDict (OrderItem_to_dict i))"
    by (simp add: fuel_three heap_get_new OrderItem_to_dict_eval)
  with OrderItem_single [OF assms] show ?thesis
    by (intro exI [of _ "length h"] exI [of _ "[?d]"]) simp
qed

lemma User_call:
  assumes "User_at h self u"
  shows "\<exists>a e. User_to_dict_heap self h = Some (HRef a, h @ e) \<and> length h \<le> a \<and>
           a < length (h @ e) \<and>
           snapshot (3 + n) (h @ e) (HRef a) = Some (PDict (User_to_dict u))"
proof -
  from assms obtain x where x: "getattr h self ''order_history'' = Some x"
    and xs: "snapshot (Suc (Suc n)) h x = Some (opt_val str_list_val (User_order_history u))"
    by (cases "User_order_history u")
       (auto simp: User_at_def opt_val_def str_list_val_def snapshot_str_list
             split: option.splits)
  let ?d = "ODict [(''id'', HStr (User_id u)), (''email'', HStr (User_email u)),
                   (''name'', HStr (User_name u)), (''orderHistory'', x)]"
  have call: "User_to_dict_heap self h = Some (HRef (length h), h @ [?d])"
    using assms x
    by (simp add: User_to_dict_heap_def User_at_def alloc_def hdict_display_distinct)
  have "snapshot (Suc (Suc n)) (h @ [?d]) x = Some (opt_val str_list_val (User_order_history u))"
    using xs by (rule snapshot_append)
  then have "snapshot (3 + n) (h @ [?d]) (HRef (length h)) = Some (PDict (User_to_dict u))"
    by (simp add: fuel_three heap_get_new User_to_dict_eval)
  with call show ?thesis by (intro exI [of _ "length h"] exI [of _ "[?d]"]) simp
qed

lemma OrderCreationData_call:
  assumes "OrderCreationData_at h self c"
  shows "\<exists>a e. OrderCreationData_to_dict_heap self h = Some (HRef a, h @ e) \<and> length h \<le> a \<and>
           a < length (h @ e) \<and>
           snapshot (3 + n) (h @ e) (HRef a) = Some (PDict (OrderCreationData_to_dict c))"
proof -
  from assms obtain x where x: "getattr h self ''item_ids'' = Some x"
    and xs: "snapshot (Suc (Suc n)) h x = Some (str_list_val (OrderCreationData_item_ids c))"
    by (auto simp: OrderCreationData_at_def str_list_val_def snapshot_str_list
          split: option.splits)
  let ?d = "ODict [(''restaurant'', HStr (OrderCreationData_restaurant_id c)),
                   (''user'', HStr (OrderCreationData_user_id c)),
                   (''items'', x),
                   (''deliveryAddress'', HStr (OrderCreationData_delivery_address c))]"
  have call: "OrderCreationData_to_dict_heap self h = Some (HRef (length h), h @ [?d])"
    using assms x
    by (simp add: OrderCreationData_to_dict_heap_def OrderCreationData_at_def alloc_def
        hdict_display_distinct)
  have "snapshot (Suc (Suc n)) (h @ [?d]) x = Some (str_list_val (OrderCreationData_item_ids c))"
    using xs by (rule snapshot_append)
  then have "snapshot (3 + n) (h @ [?d]) (HRef (length h)) =
      Some (PDict (OrderCreationData_to_dict c))"
    by (simp add: fuel_three heap_get_new OrderCreationData_to_dict_eval)
  with call show ?thesis by (intro exI [of _ "length h"] exI [of _ "[?d]"]) simp
qed

lemma getattr_append_eq:
  "getattr h x k \<noteq> None \<Longrightarrow> getattr (h @ ext) x k = getattr h x k"
  by (cases "getattr h x k") (auto simp: getattr_append)

lemma truthy_instance: "getattr h x k = Some v \<Longrightarrow> truthy h x = Some True"
  by (auto simp: getattr_def truthy_def split: hval.splits option.splits obj.splits)

lemma truthy_opt_str: "truthy h (opt_hval HStr s) = Some (truthy_str s)"
  by (cases s) (auto simp: truthy_def opt_hval_def truthy_str_def)

lemma truthy_values:
  "truthy h HNone = Some False"
  "truthy h (HStr s) = Some (s \<noteq> [])"
  by (simp_all add: truthy_def)

lemma Restaurant_single:
  assumes "Restaurant_at h self r"
  shows "Restaurant_to_dict_heap self h =
     Some (HRef (length h),
       h @ ODict
            ([(''id'', HStr (Restaurant_id r)),
              (''name'', HStr (Restaurant_name r)),
              (''cuisine'', HStr (Restaurant_cuisine r)),
              (''address'', HStr (Restaurant_address r)),
              (''rating'', HFloat (Restaurant_rating r)),
              (''deliveryFee'', HFloat (Restaurant_deliveryFee r)),
              (''estimatedDeliveryTime'', HInt (Restaurant_estimatedDeliveryTime r))] @
             (case Restaurant_subname r of
                None \<Rightarrow> []
              | Some s \<Rightarrow> if s = [] then [] else [(''subname'', HStr s)]) @
             (case Restaurant_coords r of
                None \<Rightarrow> []
              | Some g \<Rightarrow> [(''coords'', HRef (Suc (length h)))])) #
           (case Restaurant_coords r of
              None \<Rightarrow> []
            | Some g \<Rightarrow>
                [ODict [(''latitude'', HFloat (latitude g)),
                        (''longitude'', HFloat (longitude g))]]))"
proof (cases "Restaurant_coords r")
  case None
  with assms show ?thesis
    by (cases "Restaurant_subname r")
       (simp_all add: Restaurant_to_dict_heap_def Restaurant_at_def alloc_def setitem_def
          hdict_display_distinct getattr_append_eq truthy_opt_str truthy_str_def
          heap_get_new opt_hval_def truthy_values)
next
  case (Some g)
  with assms obtain x where x: "getattr h self ''coords'' = Some x"
    and g: "GeoPoint_at h x g"
    by (auto simp: Restaurant_at_def split: option.splits)
  from g have t: "truthy (h @ e) x = Some True" for e
    by (auto simp: GeoPoint_at_def dest: getattr_append truthy_instance)
  from assms Some x g t show ?thesis
    by (cases "Restaurant_subname r")
       (simp_all add: Restaurant_to_dict_heap_def Restaurant_at_def GeoPoint_at_def alloc_def
          setitem_def hdict_display_distinct getattr_append_eq truthy_opt_str truthy_str_def
          heap_get_new opt_hval_def list_update_append truthy_values)
qed

lemma heap_get_new2: "heap_get (h @ a # b # e) (Suc (length h)) = Some b"
  by (simp add: heap_get_def nth_append)

lemma Restaurant_call:
  assumes "Restaurant_at h self r"
  shows "\<exists>a e. Restaurant_to_dict_heap self h = Some (HRef a, h @ e) \<and> length h \<le> a \<and>
           a < length (h @ e) \<and>
           snapshot (3 + n) (h @ e) (HRef a) = Some (PDict (Restaurant_to_dict r))"
proof -
  let ?kvs = "[(''id'', HStr (Restaurant_id r)),
              (''name'', HStr (Restaurant_name r)),
              (''cuisine'', HStr (Restaurant_cuisine r)),
              (''address'', HStr (Restaurant_address r)),
              (''rating'', HFloat (Restaurant_rating r)),
              (''deliveryFee'', HFloat (Restaurant_deliveryFee r)),
              (''estimatedDeliveryTime'', HInt (Restaurant_estimatedDeliveryTime r))] @
             (case Restaurant_subname r of
                None \<Rightarrow> []
              | Some s \<Rightarrow> if s = [] then [] else [(''subname'', HStr s)]) @
             (case Restaurant_coords r of
                None \<Rightarrow> []
              | Some g \<Rightarrow> [(''coords'', HRef (Suc (length h)))])"
  let ?geo = "case Restaurant_coords r of
              None \<Rightarrow> []
            | Some g \<Rightarrow>
                [ODict [(''latitude'', HFloat (latitude g)),
                        (''longitude'', HFloat (longitude g))]]"
  have call: "Restaurant_to_dict_heap self h = Some (HRef (length h), h @ (ODict ?kvs # ?geo))"
    using Restaurant_single [OF assms] .
  have "snapshot (3 + n) (h @ (ODict ?kvs # ?geo)) (HRef (length h)) =
          Some (PDict (Restaurant_to_dict r))"
    by (cases "Restaurant_subname r"; cases "Restaurant_coords r")
       (simp_all add: fuel_three heap_get_new heap_get_new2 Restaurant_to_dict_eval)
  with call show ?thesis
    by (intro exI [of _ "length h"] exI [of _ "ODict ?kvs # ?geo"]) simp
qed

lemma item_to_dict_single:
  assumes "OrderItem_at h x i"
  shows "item_to_dict x h =
           Some (HRef (length h),
                 h @ [ODict [(''menuItemId'', HStr (OrderItem_menu_item_id i))]])"
  using assms OrderItem_single [OF assms] by (simp add: item_to_dict_def OrderItem_at_def)

lemma items_loop:
  assumes l: "heap_get h l = Some (OList vs)"
    and its: "list_all2 (OrderItem_at h) vs items"
  shows "i \<le> length vs \<Longrightarrow>
         items_comprehension (HRef l) i acc (h @ e) =
           Some (acc @ map HRef [length (h @ e) ..< length (h @ e) + (length vs - i)],
                 (h @ e) @
                 map (\<lambda>it. ODict [(''menuItemId'', HStr (OrderItem_menu_item_id it))])
                   (drop i items))"
proof (induction "length vs - i" arbitrary: i acc e)
  case 0
  then have i: "i = length vs" by simp
  from its have len: "length items = length vs" by (simp add: list_all2_lengthD)
  show ?case
    by (subst items_comprehension.simps) (simp add: heap_get_append [OF l] i len)
next
  case (Suc k)
  then have i: "i < length vs" by simp
  from its have len: "length items = length vs" by (simp add: list_all2_lengthD)
  let ?d = "ODict [(''menuItemId'', HStr (OrderItem_menu_item_id (items ! i)))]"
  from its i have "OrderItem_at h (vs ! i) (items ! i)" by (rule list_all2_nthD)
  then have "OrderItem_at (h @ e) (vs ! i) (items ! i)" by (rule OrderItem_at_append)
  then have step: "item_to_dict (vs ! i) (h @ e) = Some (HRef (length (h @ e)), (h @ e) @ [?d])"
    by (rule item_to_dict_single)
  have k: "k = length vs - Suc i" using Suc.hyps(2) by simp
  have "items_comprehension (HRef l) (Suc i) (acc @ [HRef (length (h @ e))]) (h @ (e @ [?d])) =
          Some ((acc @ [HRef (length (h @ e))]) @
                map HRef [length (h @ (e @ [?d])) ..<
                          length (h @ (e @ [?d])) + (length vs - Suc i)],
                (h @ (e @ [?d])) @
                map (\<lambda>it. ODict [(''menuItemId'', HStr (OrderItem_menu_item_id it))])
                  (drop (Suc i) items))"
    using k i by (intro Suc.hyps(1)) simp_all
  moreover have "[length (h @ e) ..< length (h @ e) + (length vs - i)] =
      length (h @ e) # [length (h @ (e @ [?d])) ..< length (h @ (e @ [?d])) + (length vs - Suc i)]"
    using i by (simp add: upt_conv_Cons Suc_diff_Suc del: upt_Suc)
  moreover have "drop i items = items ! i # drop (Suc i) items"
    using i len by (simp add: Cons_nth_drop_Suc)
  ultimately show ?case
    using i step
    by (subst items_comprehension.simps) (simp add: heap_get_append [OF l] del: upt_Suc)
qed

lemma those_map_all2:
  "list_all2 (\<lambda>x y. f x = Some y) xs ys \<Longrightarrow> those (map f xs) = Some ys"
  by (induction rule: list_all2_induct) auto

lemma heap_get_item_dict:
  assumes "j < length items"
  shows "heap_get (h @ map f items @ e) (length h + j) = Some (f (items ! j))"
  using assms by (simp add: heap_get_def nth_append)

lemma snapshot_item_dicts:
  "those (map (\<lambda>a. snapshot (Suc n)
                 (h @ map (\<lambda>it. ODict [(''menuItemId'', HStr (OrderItem_menu_item_id it))]) items
                    @ e) (HRef a))
            [length h ..< length h + length items]) =
   Some (map (\<lambda>it. PDict (OrderItem_to_dict it)) items)"
proof (rule those_map_all2)
  show "list_all2
     (\<lambda>x y. snapshot (Suc n)
              (h @ map (\<lambda>it. ODict [(''menuItemId'', HStr (OrderItem_menu_item_id it))]) items
                 @ e) (HRef x) = Some y)
     [length h ..< length h + length items]
     (map (\<lambda>it. PDict (OrderItem_to_dict it)) items)"
    by (simp add: list_all2_conv_all_nth heap_get_item_dict OrderItem_to_dict_eval)
qed

lemma snapshot_opt_datetime:
  "snapshot n h (opt_hval HDatetime x) = Some (opt_val PDatetime x)"
  by (cases x) (simp_all add: opt_hval_def opt_val_def)

lemma Order_call:
  assumes "Order_at h self ord"
  shows "\<exists>a e. Order_to_dict_heap self h = Some (HRef a, h @ e) \<and> length h \<le> a \<and>
           a < length (h @ e) \<and>
           snapshot (3 + n) (h @ e) (HRef a) = Some (PDict (Order_to_dict ord))"
proof -
  from assms obtain x where x: "getattr h self ''items'' = Some x"
    and xl: "item_list_at h x (Order_items ord)"
    by (cases "getattr h self ''items''") (simp_all add: Order_at_def)
  from xl obtain l where xr: "x = HRef l"
    by (cases x) (simp_all add: item_list_at_def)
  from xl xr obtain ob where ob: "heap_get h l = Some ob"
    by (cases "heap_get h l") (simp_all add: item_list_at_def)
  from xl xr ob obtain vs where l: "heap_get h l = Some (OList vs)"
    and its: "list_all2 (OrderItem_at h) vs (Order_items ord)"
    by (cases ob) (simp_all add: item_list_at_def)
  from x xr have items: "getattr h self ''items'' = Some (HRef l)" by simp
  from its have len: "length vs = length (Order_items ord)" by (rule list_all2_lengthD)
  let ?k = "length (Order_items ord)"
  let ?ds = "map (\<lambda>it. ODict [(''menuItemId'', HStr (OrderItem_menu_item_id it))])
               (Order_items ord)"
  let ?lst = "OList (map HRef [length h ..< length h + ?k])"
  let ?kvs = "[(''restaurant'', HStr (Order_restaurant ord)),
               (''user'', HStr (Order_user ord)),
               (''items'', HRef (length h + ?k)),
               (''deliveryAddress'', HStr (Order_delivery_address ord)),
               (''status'', HStr (Order_status ord)),
               (''createdAt'', opt_hval HDatetime (Order_created_at ord)),
               (''updatedAt'', opt_hval HDatetime (Order_updated_at ord))]"
  let ?H = "h @ (?ds @ [?lst, ODict ?kvs])"
  have "items_comprehension (HRef l) 0 [] (h @ []) =
          Some ([] @ map HRef [length (h @ []) ..< length (h @ []) + (length vs - 0)],
                (h @ []) @ map (\<lambda>it. ODict [(''menuItemId'', HStr (OrderItem_menu_item_id it))])
                             (drop 0 (Order_items ord)))"
    using l its by (rule items_loop) simp
  then have loop: "items_comprehension (HRef l) 0 [] h =
      Some (map HRef [length h ..< length h + ?k], h @ ?ds)"
    by (simp add: len)
  have call: "Order_to_dict_heap self h = Some (HRef (Suc (length h + ?k)), ?H)"
    using assms items loop
    by (simp add: Order_to_dict_heap_def Order_at_def alloc_def getattr_append_eq
        hdict_display_distinct)
  have hl: "heap_get ?H (length h + ?k) = Some ?lst"
    by (simp add: heap_get_def nth_append)
  have hd: "heap_get ?H (Suc (length h + ?k)) = Some (ODict ?kvs)"
    by (simp add: heap_get_def nth_append)
  have "those (map (\<lambda>a. snapshot (Suc n) ?H (HRef a)) [length h ..< length h + ?k]) =
          Some (map (\<lambda>it. PDict (OrderItem_to_dict it)) (Order_items ord))"
    by (rule snapshot_item_dicts)
  then have "those (map (snapshot (Suc n) ?H) (map HRef [length h ..< length h + ?k])) =
          Some (map (\<lambda>it. PDict (OrderItem_to_dict it)) (Order_items ord))"
    by (simp only: map_map comp_def)
  then have items_snap: "snapshot (Suc (Suc n)) ?H (HRef (length h + ?k)) =
      Some (PList (map (\<lambda>it. PDict (OrderItem_to_dict it)) (Order_items ord)))"
    by (simp only: snapshot.simps hl option.case obj.case option.map)
  have "snapshot (Suc (Suc (Suc n))) ?H (HRef (Suc (length h + ?k))) =
      map_option PDict
        (those (map (\<lambda>(k, v). map_option (Pair k) (snapshot (Suc (Suc n)) ?H v)) ?kvs))"
    by (simp only: snapshot.simps hd option.case obj.case)
  also have "\<dots> = Some (PDict (Order_to_dict ord))"
    by (simp add: items_snap snapshot_opt_datetime Order_to_dict_eval del: snapshot.simps(7))
  finally have "snapshot (3 + n) ?H (HRef (Suc (length h + ?k))) =
      Some (PDict (Order_to_dict ord))"
    by (simp only: fuel_three)
  with call show ?thesis
    by (intro exI [of _ "Suc (length h + ?k)"] exI [of _ "?ds @ [?lst, ODict ?kvs]"]) simp
qed

lemma repeatable_from_call:
  assumes call: "\<And>h. P h \<Longrightarrow>
      \<exists>a e. to_dict self h = Some (HRef a, h @ e) \<and> length h \<le> a \<and> a < length (h @ e) \<and>
            snapshot (3 + n) (h @ e) (HRef a) = Some (PDict x)"
    and stable: "\<And>h e. P h \<Longrightarrow> P (h @ e)"
    and P: "P h"
    and d: "distinct (dict_keys x)"
  shows "repeatable n to_dict self h x"
proof -
  from call [OF P] obtain a1 e1 where c1: "to_dict self h = Some (HRef a1, h @ e1)"
    and a1: "a1 < length (h @ e1)"
    and s1: "snapshot (3 + n) (h @ e1) (HRef a1) = Some (PDict x)"
    by blast
  from stable [OF P] have "P (h @ e1)" .
  from call [OF this] obtain a2 e2 where
    c2: "to_dict self (h @ e1) = Some (HRef a2, (h @ e1) @ e2)"
    and a2: "length (h @ e1) \<le> a2"
    and s2: "snapshot (3 + n) ((h @ e1) @ e2) (HRef a2) = Some (PDict x)"
    by blast
  from c1 a1 s1 c2 a2 s2 d show ?thesis by (rule repeatableI)
qed

lemma Restaurant_repeatable:
  assumes "Restaurant_at h self r"
  shows "repeatable n Restaurant_to_dict_heap self h (Restaurant_to_dict r)"
proof (rule repeatable_from_call [where P = "\<lambda>h. Restaurant_at h self r"])
  fix h'
  assume "Restaurant_at h' self r"
  then show "\<exists>a e. Restaurant_to_dict_heap self h' = Some (HRef a, h' @ e) \<and> length h' \<le> a \<and>
      a < length (h' @ e) \<and>
      snapshot (3 + n) (h' @ e) (HRef a) = Some (PDict (Restaurant_to_dict r))"
    by (rule Restaurant_call)
next
  fix h' e
  assume "Restaurant_at h' self r"
  then show "Restaurant_at (h' @ e) self r" by (rule Restaurant_at_append)
next
  show "Restaurant_at h self r" by (rule assms)
next
  show "distinct (dict_keys (Restaurant_to_dict r))" by (simp add: Restaurant_to_dict_keys)
qed

lemma MenuItem_repeatable:
  assumes "MenuItem_at h self m"
  shows "repeatable n MenuItem_to_dict_heap self h (MenuItem_to_dict m)"
proof (rule repeatable_from_call [where P = "\<lambda>h. MenuItem_at h self m"])
  fix h'
  assume "MenuItem_at h' self m"
  then show "\<exists>a e. MenuItem_to_dict_heap self h' = Some (HRef a, h' @ e) \<and> length h' \<le> a \<and>
      a < length (h' @ e) \<and>
      snapshot (3 + n) (h' @ e) (HRef a) = Some (PDict (MenuItem_to_dict m))"
    by (rule MenuItem_call)
next
  fix h' e
  assume "MenuItem_at h' self m"
  then show "MenuItem_at (h' @ e) self m" by (rule MenuItem_at_append)
next
  show "MenuItem_at h self m" by (rule assms)
next
  show "distinct (dict_keys (MenuItem_to_dict m))" by (simp add: MenuItem_to_dict_eval dict_keys_def)
qed

lemma User_repeatable:
  assumes "User_at h self u"
  shows "repeatable n User_to_dict_heap self h (User_to_dict u)"
proof (rule repeatable_from_call [where P = "\<lambda>h. User_at h self u"])
  fix h'
  assume "User_at h' self u"
  then show "\<exists>a e. User_to_dict_heap self h' = Some (HRef a, h' @ e) \<and> length h' \<le> a \<and>
      a < length (h' @ e) \<and>
      snapshot (3 + n) (h' @ e) (HRef a) = Some (PDict (User_to_dict u))"
    by (rule User_call)
next
  fix h' e
  assume "User_at h' self u"
  then show "User_at (h' @ e) self u" by (rule User_at_append)
next
  show "User_at h self u" by (rule assms)
next
  show "distinct (dict_keys (User_to_dict u))" by (simp add: User_to_dict_eval dict_keys_def)
qed

lemma OrderItem_repeatable:
  assumes "OrderItem_at h self i"
  shows "repeatable n OrderItem_to_dict_heap self h (OrderItem_to_dict i)"
proof (rule repeatable_from_call [where P = "\<lambda>h. OrderItem_at h self i"])
  fix h'
  assume "OrderItem_at h' self i"
  then show "\<exists>a e. OrderItem_to_dict_heap self h' = Some (HRef a, h' @ e) \<and> length h' \<le> a \<and>
      a < length (h' @ e) \<and>
      snapshot (3 + n) (h' @ e) (HRef a) = Some (PDict (OrderItem_to_dict i))"
    by (rule OrderItem_call)
next
  fix h' e
  assume "OrderItem_at h' self i"
  then show "OrderItem_at (h' @ e) self i" by (rule OrderItem_at_append)
next
  show "OrderItem_at h self i" by (rule assms)
next
  show "distinct (dict_keys (OrderItem_to_dict i))" by (simp add: OrderItem_to_dict_eval dict_keys_def)
qed

lemma OrderCreationData_repeatable:
  assumes "OrderCreationData_at h self c"
  shows "repeatable n OrderCreationData_to_dict_heap self h (OrderCreationData_to_dict c)"
proof (rule repeatable_from_call [where P = "\<lambda>h. OrderCreationData_at h self c"])
  fix h'
  assume "OrderCreationData_at h' self c"
  then show "\<exists>a e. OrderCreationData_to_dict_heap self h' = Some (HRef a, h' @ e) \<and> length h' \<le> a \<and>
      a < length (h' @ e) \<and>
      snapshot (3 + n) (h' @ e) (HRef a) = Some (PDict (OrderCreationData_to_dict c))"
    by (rule OrderCreationData_call)
next
  fix h' e
  assume "OrderCreationData_at h' self c"
  then show "OrderCreationData_at (h' @ e) self c" by (rule OrderCreationData_at_append)
next
  show "OrderCreationData_at h self c" by (rule assms)
next
  show "distinct (dict_keys (OrderCreationData_to_dict c))" by (simp add: OrderCreationData_to_dict_eval dict_keys_def)
qed

lemma Order_repeatable:
  assumes "Order_at h self ord"
  shows "repeatable n Order_to_dict_heap self h (Order_to_dict ord)"
proof (rule repeatable_from_call [where P = "\<lambda>h. Order_at h self ord"])
  fix h'
  assume "Order_at h' self ord"
  then show "\<exists>a e. Order_to_dict_heap self h' = Some (HRef a, h' @ e) \<and> length h' \<le> a \<and>
      a < length (h' @ e) \<and>
      snapshot (3 + n) (h' @ e) (HRef a) = Some (PDict (Order_to_dict ord))"
    by (rule Order_call)
next
  fix h' e
  assume "Order_at h' self ord"
  then show "Order_at (h' @ e) self ord" by (rule Order_at_append)
next
  show "Order_at h self ord" by (rule assms)
next
  show "distinct (dict_keys (Order_to_dict ord))" by (simp add: Order_to_dict_eval dict_keys_def)
qed

lemma example_Restaurant_at: "Restaurant_at example_heap (HRef 1) example_Restaurant"
  by (simp add: Restaurant_at_def GeoPoint_at_def getattr_def heap_get_def example_heap_def
      example_Restaurant_def opt_hval_def)

lemma example_MenuItem_at: "MenuItem_at example_heap (HRef 2) example_MenuItem"
  by (simp add: MenuItem_at_def getattr_def heap_get_def example_heap_def example_MenuItem_def)

lemma example_User_at: "User_at example_heap (HRef 4) example_User"
  by (simp add: User_at_def str_list_at_def getattr_def heap_get_def example_heap_def
      example_User_def)

lemma example_OrderItem_at: "OrderItem_at example_heap (HRef 5) example_OrderItem"
  by (simp add: OrderItem_at_def class_of_def getattr_def heap_get_def example_heap_def
      example_OrderItem_def)

lemma example_OrderCreationData_at:
  "OrderCreationData_at example_heap (HRef 8) example_OrderCreationData"
  by (simp add: OrderCreationData_at_def str_list_at_def getattr_def heap_get_def
      example_heap_def example_OrderCreationData_def)

lemma example_Order_at: "Order_at example_heap (HRef 10) example_Order"
  by (simp add: Order_at_def item_list_at_def OrderItem_at_def class_of_def getattr_def
      heap_get_def example_heap_def example_Order_def opt_hval_def)

text \<open>
  Claim C8: for every record of each entity type (Restaurant, MenuItem, User, OrderItem,
  OrderCreationData, Order) held by an object of the heap, two successive calls of
  \<^verbatim>\<open>to_dict()\<close> on that object both return, change no object that existed before them
  (they only allocate), and return two different dictionary objects whose contents are
  equal as dictionaries: both are the dictionary computed from the stored field values
  of the record. The contents are read at any depth of at least three references.
\<close>

theorem to_dict_twice_equal:
  "(Restaurant_at h self_r r \<longrightarrow>
      repeatable n Restaurant_to_dict_heap self_r h (Restaurant_to_dict r)) \<and>
   (MenuItem_at h self_m m \<longrightarrow>
      repeatable n MenuItem_to_dict_heap self_m h (MenuItem_to_dict m)) \<and>
   (User_at h self_u u \<longrightarrow>
      repeatable n User_to_dict_heap self_u h (User_to_dict u)) \<and>
   (OrderItem_at h self_i i \<longrightarrow>
      repeatable n OrderItem_to_dict_heap self_i h (OrderItem_to_dict i)) \<and>
   (OrderCreationData_at h self_c c \<longrightarrow>
      repeatable n OrderCreationData_to_dict_heap self_c h (OrderCreationData_to_dict c)) \<and>
   (Order_at h self_o ord \<longrightarrow>
      repeatable n Order_to_dict_heap self_o h (Order_to_dict ord))"
  by (intro conjI impI)
     (erule Restaurant_repeatable MenuItem_repeatable User_repeatable OrderItem_repeatable
        OrderCreationData_repeatable Order_repeatable)+

theorem to_dict_twice_equal_witness:
  "Restaurant_at example_heap (HRef 1) example_Restaurant \<and>
   repeatable 0 Restaurant_to_dict_heap (HRef 1) example_heap
     (Restaurant_to_dict example_Restaurant) \<and>
   MenuItem_at example_heap (HRef 2) example_MenuItem \<and>
   repeatable 0 MenuItem_to_dict_heap (HRef 2) example_heap
     (MenuItem_to_dict example_MenuItem) \<and>
   User_at example_heap (HRef 4) example_User \<and>
   repeatable 0 User_to_dict_heap (HRef 4) example_heap (User_to_dict example_User) \<and>
   OrderItem_at example_heap (HRef 5) example_OrderItem \<and>
   repeatable 0 OrderItem_to_dict_heap (HRef 5) example_heap
     (OrderItem_to_dict example_OrderItem) \<and>
   OrderCreationData_at example_heap (HRef 8) example_OrderCreationData \<and>
   repeatable 0 OrderCreationData_to_dict_heap (HRef 8) example_heap
     (OrderCreationData_to_dict example_OrderCreationData) \<and>
   Order_at example_heap (HRef 10) example_Order \<and>
   repeatable 0 Order_to_dict_heap (HRef 10) example_heap (Order_to_dict example_Order)"
  using to_dict_twice_equal [of example_heap "HRef 1" example_Restaurant 0
      "HRef 2" example_MenuItem "HRef 4" example_User "HRef 5" example_OrderItem
      "HRef 8" example_OrderCreationData "HRef 10" example_Order]
    example_Restaurant_at example_MenuItem_at example_User_at example_OrderItem_at
    example_OrderCreationData_at example_Order_at
  by simp

text \<open>
  The dictionary of a User holds the very list object that the record refers to, not a
  copy of it; and the two calls on the example restaurant, evaluated.
\<close>

lemma User_to_dict_heap_shares_list:
  assumes "User_at h self u" and "getattr h self ''order_history'' = Some x"
  shows "User_to_dict_heap self h =
           Some (HRef (length h),
                 h @ [ODict [(''id'', HStr (User_id u)), (''email'', HStr (User_email u)),
                             (''name'', HStr (User_name u)), (''orderHistory'', x)]])"
  using assms
  by (simp add: User_to_dict_heap_def User_at_def alloc_def hdict_display_distinct)

lemma example_call_twice:
  "call_twice Restaurant_to_dict_heap (HRef 1) example_heap =
     Some ((HRef 11, HRef 13),
       example_heap @
       [ODict [(''id'', HStr ''r1''), (''name'', HStr ''Luigi''), (''cuisine'', HStr ''italian''),
               (''address'', HStr ''1 Main St''), (''rating'', HFloat 0x4012000000000000),
               (''deliveryFee'', HFloat 0x4000000000000000),
               (''estimatedDeliveryTime'', HInt 30), (''subname'', HStr ''Trattoria''),
               (''coords'', HRef 12)],
        ODict [(''latitude'', HFloat 0x4029000000000000),
               (''longitude'', HFloat 0xC01D000000000000)],
        ODict [(''id'', HStr ''r1''), (''name'', HStr ''Luigi''), (''cuisine'', HStr ''italian''),
               (''address'', HStr ''1 Main St''), (''rating'', HFloat 0x4012000000000000),
               (''deliveryFee'', HFloat 0x4000000000000000),
               (''estimatedDeliveryTime'', HInt 30), (''subname'', HStr ''Trattoria''),
               (''coords'', HRef 14)],
        ODict [(''latitude'', HFloat 0x4029000000000000),
               (''longitude'', HFloat 0xC01D000000000000)]])"
  by code_simp

end
